theory Spec2Isabelle
  imports Main "HOL-Library.Word"
begin

section \<open>Data model (libavformat/webrtc.h)\<close>

text \<open>
  The WHIP muxer, the WHEP demuxer and their common code drive three foreign layers:
  the peer-connection engine (libdatachannel), the URL/HTTP layer and the RTP layer of
  libavformat. Objects owned by those layers are addresses here (\<open>ptr\<close>), a C pointer
  that may be NULL is an \<open>option\<close>, and every foreign call is a field of the record
  \<open>env\<close>: what the call returns, as a function of what the code passes to it. The two
  macros the code uses without defining them, \<open>SDP_MAX_SIZE\<close> and \<open>LIBAVFORMAT_IDENT\<close>,
  are fields of \<open>env\<close> as well. What the code does to the outside is a trace of
  \<open>event\<close>s, in program order. Calls of \<open>av_log\<close> and the logger set-up are left out.
\<close>

type_synonym ptr = nat

datatype rtcState =
  RTC_NEW | RTC_CONNECTING | RTC_CONNECTED | RTC_DISCONNECTED | RTC_FAILED | RTC_CLOSED

datatype rtcDirection =
  RTC_DIRECTION_UNKNOWN | RTC_DIRECTION_SENDONLY | RTC_DIRECTION_RECVONLY
  | RTC_DIRECTION_SENDRECV | RTC_DIRECTION_INACTIVE

text \<open>\<open>RTC_CODEC_NONE\<close> stands for the value \<open>-1\<close> that \<open>ff_webrtc_convert_codec\<close> stores
  for a codec it does not know.\<close>

datatype rtcCodec =
  RTC_CODEC_H264 | RTC_CODEC_VP8 | RTC_CODEC_VP9 | RTC_CODEC_H265 | RTC_CODEC_AV1
  | RTC_CODEC_OPUS | RTC_CODEC_PCMU | RTC_CODEC_PCMA | RTC_CODEC_AAC | RTC_CODEC_NONE

datatype AVCodecID =
  AV_CODEC_ID_H264 | AV_CODEC_ID_HEVC | AV_CODEC_ID_AV1 | AV_CODEC_ID_VP8 | AV_CODEC_ID_VP9
  | AV_CODEC_ID_OPUS | AV_CODEC_ID_AAC | AV_CODEC_ID_PCM_ALAW | AV_CODEC_ID_PCM_MULAW
  | AV_CODEC_ID_OTHER nat

datatype AVMediaType = AVMEDIA_TYPE_VIDEO | AVMEDIA_TYPE_AUDIO | AVMEDIA_TYPE_OTHER nat

datatype AVChannelLayout = AV_CHANNEL_LAYOUT_MONO | AV_CHANNEL_LAYOUT_STEREO | AV_CHANNEL_LAYOUT_OTHER nat

record AVCodecParameters =
  codec_type :: AVMediaType
  codec_id :: AVCodecID
  sample_rate :: int
  ch_layout :: AVChannelLayout

record AVStream =
  codecpar :: AVCodecParameters
  time_base :: "int \<times> int"

record AVPacket =
  stream_index :: int
  pkt_data :: string

record rtcTrackInit =
  direction :: rtcDirection
  codec :: rtcCodec
  payloadType :: int
  ssrc :: "32 word"
  mid :: "string option"
  name :: "string option"
  msid :: "string option"
  trackId :: "string option"
  profile :: "string option"

text \<open>The URLContext that \<open>ff_webrtc_init_urlcontext\<close> fills in; its \<open>priv_data\<close> is the
  track that owns it.\<close>

record URLContext =
  prot :: string
  max_packet_size :: int
  flags :: int
  url_rw_timeout :: int

record WebRTCTrack =
  track_avctx :: "string option"
  track_id :: int
  rtp_ctx :: "ptr option"
  rtp_url_context :: "URLContext option"

text \<open>\<open>avctx\<close> is the pointer back to the owning AVFormatContext: NULL, or the context,
  of which this code reads the \<open>url\<close> only. \<open>tracks\<close> is NULL or the allocated array;
  \<open>nb_tracks\<close> is a field of its own, as in the C struct.\<close>

record WebRTCContext =
  avctx :: "string option"
  peer_connection :: int
  state :: rtcState
  tracks :: "WebRTCTrack list option"
  nb_tracks :: int
  resource_location :: "string option"
  bearer_token :: "string option"
  connection_timeout :: int
  rw_timeout :: int

record AVFormatContext =
  url :: string
  max_delay :: int
  streams :: "AVStream list"

definition RTP_MAX_PACKET_SIZE :: int where
  "RTP_MAX_PACKET_SIZE = 1280"

subsection \<open>Result codes\<close>

text \<open>
  Modelled from the spec: the error kinds the spec names (configuration, resource
  exhaustion, engine rejection, try again, buffer too small, end of stream) are in the code
  the macros of libavutil/error.h and the result codes of the engine's rtc.h. Neither
  header is among the sources at hand; the constants below carry the values the headers
  give them (errno numbers as on Linux). The properties use that the error codes are
  negative and differ from one another, nothing else.
\<close>

definition AVERROR :: "int \<Rightarrow> int" where
  "AVERROR e = - e"

definition EAGAIN :: int where "EAGAIN = 11"
definition ENOMEM :: int where "ENOMEM = 12"
definition EINVAL :: int where "EINVAL = 22"

definition FFERRTAG :: "char \<Rightarrow> char \<Rightarrow> char \<Rightarrow> char \<Rightarrow> int" where
  "FFERRTAG a b c d =
     - (of_char a + of_char b * 2 ^ 8 + of_char c * 2 ^ 16 + of_char d * 2 ^ 24)"

definition AVERROR_BUFFER_TOO_SMALL :: int where
  "AVERROR_BUFFER_TOO_SMALL = FFERRTAG CHR ''B'' CHR ''U'' CHR ''F'' CHR ''S''"

definition AVERROR_EOF :: int where
  "AVERROR_EOF = FFERRTAG CHR ''E'' CHR ''O'' CHR ''F'' CHR '' ''"

definition AVERROR_EXTERNAL :: int where
  "AVERROR_EXTERNAL = FFERRTAG CHR ''E'' CHR ''X'' CHR ''T'' CHR '' ''"

definition RTC_ERR_SUCCESS :: int where "RTC_ERR_SUCCESS = 0"
definition RTC_ERR_INVALID :: int where "RTC_ERR_INVALID = - 1"
definition RTC_ERR_FAILURE :: int where "RTC_ERR_FAILURE = - 2"
definition RTC_ERR_NOT_AVAIL :: int where "RTC_ERR_NOT_AVAIL = - 3"
definition RTC_ERR_TOO_SMALL :: int where "RTC_ERR_TOO_SMALL = - 4"

text \<open>What C leaves undefined is a value of its own: reading through a NULL pointer, or
  outside an array.\<close>

datatype fault = NullDeref | OutOfBounds

subsection \<open>Foreign calls and their trace\<close>

record http_request =
  req_url :: string
  req_method :: string
  req_headers :: "string option"
  req_post_data :: string

datatype alloc_site =
  Alloc_tracks | Alloc_rtp_url_context nat | Alloc_rtp_ctx nat | Alloc_stream nat
  | Alloc_string string

datatype event =
    RtcCreatePeerConnection
  | RtcSetUserPointer int
  | RtcSetStateChangeCallback int
  | RtcDeletePeerConnection int
  | RtcAddTrackEx int rtcTrackInit
  | RtcDeleteTrack nat int
  | RtcSetLocalDescription int string
  | RtcSetRemoteDescription int string string
  | Ffurl_alloc string
  | Ffurl_connect http_request
  | Ffurl_read_complete nat
  | Ffurl_closep string
  | Avformat_free_context nat ptr
  | Av_freep_rtp_url_context nat
  | Av_freep_tracks
  | Av_freep_resource_location
  | Av_write_frame "ptr option" AVPacket
  | Av_usleep int
  | Avpriv_set_pts_info nat int int int
  | Ff_rtp_chain_mux_open nat
  | Avformat_open_input nat string
  | Ffio_fdopen nat
  | Avformat_new_stream nat

record env =
  rtcCreatePeerConnection :: int
  rtcSetStateChangeCallback :: "int \<Rightarrow> int"
  rtcAddTrackEx :: "int \<Rightarrow> rtcTrackInit \<Rightarrow> int"
  rtcSetLocalDescription :: "int \<Rightarrow> string \<Rightarrow> int"
  rtcGetLocalDescription :: "int \<Rightarrow> nat \<Rightarrow> int \<times> string"
  rtcSetRemoteDescription :: "int \<Rightarrow> string \<Rightarrow> string \<Rightarrow> int"
  rtcGetTrackDescription :: "int \<Rightarrow> nat \<Rightarrow> int \<times> string"
  ffurl_alloc :: "string \<Rightarrow> int"
  ffurl_connect :: "http_request \<Rightarrow> int"
  ffurl_read_complete :: "http_request \<Rightarrow> nat \<Rightarrow> int \<times> string"
  ffurl_closep :: "string \<Rightarrow> int"
  av_opt_get_new_location :: "http_request \<Rightarrow> string option"
  av_malloc_ok :: "alloc_site \<Rightarrow> bool"
  av_random_bytes :: "int \<times> string"
  av_uuid_unparse :: "string \<Rightarrow> string"
  av_get_random_seed :: "nat \<Rightarrow> 32 word"
  av_gettime_relative :: int
  observe :: "nat \<Rightarrow> rtcState \<times> int"
  av_write_frame :: "ptr option \<Rightarrow> AVPacket \<Rightarrow> int"
  ff_rtp_chain_mux_open :: "nat \<Rightarrow> int \<times> ptr"
  rtp_mux_payload_type :: "ptr \<Rightarrow> int"
  rtp_mux_ssrc :: "ptr \<Rightarrow> 32 word"
  ff_sdp_write_media :: "nat \<Rightarrow> string \<Rightarrow> int \<times> string"
  av_find_input_format_sdp :: bool
  avformat_alloc_context :: "nat \<Rightarrow> ptr"
  ff_copy_whiteblacklists :: "nat \<Rightarrow> int"
  avformat_open_input :: "nat \<Rightarrow> string \<Rightarrow> int"
  ffio_fdopen :: "nat \<Rightarrow> int"
  avcodec_parameters_copy :: "nat \<Rightarrow> int"
  rtp_ctx_stream0 :: "ptr \<Rightarrow> AVStream"
  LIBAVFORMAT_IDENT :: string
  SDP_MAX_SIZE :: nat

section \<open>Transport binding: receiving on a track (webrtc.c)\<close>

text \<open>
  \<open>webrtc_read\<close> calls \<open>rtcReceiveMessage(track_id, buf, &size)\<close> once. The engine is a
  parameter: from its state, the track handle and the buffer size it gives the result
  code, the size it stored back and its next state. The function returns the mapped code
  and hands the engine's next state on unchanged.
\<close>

definition webrtc_read ::
  "('e \<Rightarrow> int \<Rightarrow> int \<Rightarrow> int \<times> int \<times> 'e) \<Rightarrow> 'e \<Rightarrow> WebRTCTrack \<Rightarrow> int \<Rightarrow> int \<times> 'e" where
  "webrtc_read rtcReceiveMessage eng ctx sz =
     (case rtcReceiveMessage eng (track_id ctx) sz of (ret, size', eng') \<Rightarrow>
        if ret = RTC_ERR_NOT_AVAIL then (AVERROR EAGAIN, eng')
        else if ret = RTC_ERR_TOO_SMALL then (AVERROR_BUFFER_TOO_SMALL, eng')
        else if ret \<noteq> RTC_ERR_SUCCESS then (AVERROR_EOF, eng')
        else (size', eng'))"

text \<open>An engine for running \<open>webrtc_read\<close>: the queue of messages waiting on the one track
  with handle 1. A message longer than the buffer stays queued.\<close>

definition queue_engine :: "string list \<Rightarrow> int \<Rightarrow> int \<Rightarrow> int \<times> int \<times> string list" where
  "queue_engine q tr sz =
     (if tr \<noteq> 1 then (RTC_ERR_INVALID, sz, q)
      else case q of
        [] \<Rightarrow> (RTC_ERR_NOT_AVAIL, sz, q)
      | m # q' \<Rightarrow>
          if sz < int (length m) then (RTC_ERR_TOO_SMALL, int (length m), q)
          else (RTC_ERR_SUCCESS, int (length m), q'))"

section \<open>The WHIP muxer: writing a packet\<close>

definition track_at :: "WebRTCContext \<Rightarrow> int \<Rightarrow> fault + WebRTCTrack" where
  "track_at ctx i =
     (case tracks ctx of
        None \<Rightarrow> Inl NullDeref
      | Some ts \<Rightarrow> if 0 \<le> i \<and> i < int (length ts) then Inr (ts ! nat i) else Inl OutOfBounds)"

text \<open>
  \<open>whip_write_packet\<close> reads \<open>tracks[pkt->stream_index].rtp_ctx\<close>, stores 0 in
  \<open>pkt->stream_index\<close>, and only then looks at the connection state. The result is the
  return value, the caller's packet as the function leaves it, and the trace.
\<close>

definition whip_write_packet ::
  "env \<Rightarrow> WebRTCContext \<Rightarrow> AVPacket \<Rightarrow> fault + (int \<times> AVPacket \<times> event list)" where
  "whip_write_packet e ctx pkt =
     (case track_at ctx (stream_index pkt) of
        Inl f \<Rightarrow> Inl f
      | Inr t \<Rightarrow>
          (let rtpctx = rtp_ctx t;
               pkt' = pkt\<lparr>stream_index := 0\<rparr>
           in if state ctx \<noteq> RTC_CONNECTED then Inr (AVERROR EINVAL, pkt', [])
              else Inr (av_write_frame e rtpctx pkt', pkt', [Av_write_frame rtpctx pkt'])))"

definition CRLF :: string where
  "CRLF = [CHR 0x0D, CHR 0x0A]"

section \<open>Teardown and resource deletion (webrtc.c)\<close>

text \<open>
  \<open>ff_webrtc_deinit\<close>: when the track array is there, for each \<open>i < nb_tracks\<close> free the RTP
  context, the URL context and the engine's track, each only when set; then the array; then
  the peer connection when non-zero; then the resource location string. The loop trusts
  \<open>nb_tracks\<close>: an index past the array is a read outside it.
\<close>

definition release_track :: "nat \<Rightarrow> WebRTCTrack \<Rightarrow> event list" where
  "release_track i t =
     (case rtp_ctx t of None \<Rightarrow> [] | Some p \<Rightarrow> [Avformat_free_context i p]) @
     (case rtp_url_context t of None \<Rightarrow> [] | Some u \<Rightarrow> [Av_freep_rtp_url_context i]) @
     (if track_id t \<noteq> 0 then [RtcDeleteTrack i (track_id t)] else [])"

fun deinit_tracks :: "WebRTCTrack list \<Rightarrow> nat \<Rightarrow> nat \<Rightarrow> fault + event list" where
  "deinit_tracks ts i 0 = Inr []"
| "deinit_tracks ts i (Suc r) =
     (if i < length ts
      then (case deinit_tracks ts (Suc i) r of
              Inl f \<Rightarrow> Inl f
            | Inr ev \<Rightarrow> Inr (release_track i (ts ! i) @ ev))
      else Inl OutOfBounds)"

definition ff_webrtc_deinit :: "WebRTCContext \<Rightarrow> fault + (WebRTCContext \<times> event list)" where
  "ff_webrtc_deinit ctx =
     (case (case tracks ctx of
              None \<Rightarrow> Inr []
            | Some ts \<Rightarrow>
                (case deinit_tracks ts 0 (nat (nb_tracks ctx)) of
                   Inl f \<Rightarrow> Inl f
                 | Inr ev \<Rightarrow> Inr (ev @ [Av_freep_tracks]))) of
        Inl f \<Rightarrow> Inl f
      | Inr ev1 \<Rightarrow>
          Inr (ctx\<lparr>tracks := None, peer_connection := 0, resource_location := None\<rparr>,
               ev1
               @ (if peer_connection ctx \<noteq> 0
                  then [RtcDeletePeerConnection (peer_connection ctx)] else [])
               @ (if resource_location ctx \<noteq> None then [Av_freep_resource_location] else [])))"

text \<open>\<open>av_asprintf\<close> returns the formatted string, or NULL when the allocation fails.\<close>

definition av_asprintf :: "env \<Rightarrow> string \<Rightarrow> string option" where
  "av_asprintf e s = (if av_malloc_ok e (Alloc_string s) then Some s else None)"

text \<open>
  \<open>ff_webrtc_close_resource\<close>: nothing to do without a resource location; otherwise an
  HTTP DELETE to it. Every path past the first test runs through the \<open>fail\<close> label, which
  closes the HTTP context if it is still open, frees the resource location and returns
  \<open>ret\<close>, the result of the last step taken.
\<close>

definition ff_webrtc_close_resource ::
  "env \<Rightarrow> WebRTCContext \<Rightarrow> int \<times> WebRTCContext \<times> event list" where
  "ff_webrtc_close_resource e ctx =
     (case resource_location ctx of
        None \<Rightarrow> (0, ctx, [])
      | Some loc \<Rightarrow>
          (let cleared = ctx\<lparr>resource_location := None\<rparr> in
           if ffurl_alloc e loc < 0
           then (ffurl_alloc e loc, cleared, [Ffurl_alloc loc, Av_freep_resource_location])
           else
             (case (case bearer_token ctx of
                      None \<Rightarrow> Inr None
                    | Some tok \<Rightarrow>
                        (case av_asprintf e (''Authorization: Bearer '' @ tok @ CRLF) of
                           None \<Rightarrow> Inl (AVERROR ENOMEM)
                         | Some h \<Rightarrow> Inr (Some h))) of
                Inl err \<Rightarrow>
                  (err, cleared, [Ffurl_alloc loc, Ffurl_closep loc, Av_freep_resource_location])
              | Inr headers \<Rightarrow>
                  (let req = \<lparr>req_url = loc, req_method = ''DELETE'', req_headers = headers,
                               req_post_data = []\<rparr>
                   in if ffurl_connect e req < 0
                      then (ffurl_connect e req, cleared,
                            [Ffurl_alloc loc, Ffurl_connect req, Ffurl_closep loc,
                             Av_freep_resource_location])
                      else (ffurl_closep e loc, cleared,
                            [Ffurl_alloc loc, Ffurl_connect req, Ffurl_closep loc,
                             Av_freep_resource_location])))))"

text \<open>The WHEP demuxer's close: delete the resource, tear down, return the deletion's
  result.\<close>

definition whep_read_close ::
  "env \<Rightarrow> WebRTCContext \<Rightarrow> fault + (int \<times> WebRTCContext \<times> event list)" where
  "whep_read_close e ctx =
     (case ff_webrtc_close_resource e ctx of (ret, ctx1, ev1) \<Rightarrow>
        (case ff_webrtc_deinit ctx1 of
           Inl f \<Rightarrow> Inl f
         | Inr (ctx2, ev2) \<Rightarrow> Inr (ret, ctx2, ev1 @ ev2)))"

text \<open>The WHIP muxer's two callbacks: \<open>write_trailer\<close> deletes the resource, \<open>deinit\<close> tears
  down.\<close>

definition whip_write_trailer :: "env \<Rightarrow> WebRTCContext \<Rightarrow> int \<times> WebRTCContext \<times> event list" where
  "whip_write_trailer e ctx = ff_webrtc_close_resource e ctx"

definition whip_deinit :: "WebRTCContext \<Rightarrow> fault + (WebRTCContext \<times> event list)" where
  "whip_deinit ctx = ff_webrtc_deinit ctx"

text \<open>The track loop of the teardown stays inside the array when \<open>nb_tracks\<close> is no more
  than the number of tracks allocated.\<close>

definition tracks_in_bounds :: "WebRTCContext \<Rightarrow> bool" where
  "tracks_in_bounds ctx =
     (case tracks ctx of None \<Rightarrow> True | Some ts \<Rightarrow> nat (nb_tracks ctx) \<le> length ts)"

section \<open>Signaling: creating the resource (webrtc.c)\<close>

text \<open>
  A \<open>char\<close> array of \<open>n\<close> elements is zero-initialised, a callee stores \<open>bytes\<close> at its
  start (no more than \<open>n\<close> of them), and the code then reads the array as a C string. The
  string ends at the first NUL among the bytes stored, or at the zero left behind them;
  when \<open>n\<close> bytes without a NUL were stored there is none, and the read runs past the array.
\<close>

definition c_string :: "nat \<Rightarrow> string \<Rightarrow> fault + string" where
  "c_string n bytes =
     (let stored = take n bytes in
      if CHR 0x00 \<in> set stored then Inr (takeWhile (\<lambda>c. c \<noteq> CHR 0x00) stored)
      else if length stored < n then Inr stored
      else Inl OutOfBounds)"

definition post_headers :: "env \<Rightarrow> string option \<Rightarrow> string option" where
  "post_headers e token =
     (case av_asprintf e (''Content-type: application/sdp'' @ CRLF) of
        None \<Rightarrow> None
      | Some h \<Rightarrow>
          (case token of
             None \<Rightarrow> Some h
           | Some t \<Rightarrow> av_asprintf e (h @ ''Authorization: Bearer '' @ t @ CRLF)))"

text \<open>
  \<open>ff_webrtc_create_resource\<close>, step by step as in the source. Each failing step jumps to
  \<open>fail\<close>, which closes the HTTP context when it is open and returns \<open>ret\<close>. The response
  is read with \<open>ffurl_read_complete(h, response_sdp, sizeof(response_sdp))\<close>; the only test
  on it is \<open>ret < 0\<close>.
\<close>

definition ff_webrtc_create_resource ::
  "env \<Rightarrow> WebRTCContext \<Rightarrow> fault + (int \<times> WebRTCContext \<times> event list)" where
  "ff_webrtc_create_resource e ctx =
     (let pc = peer_connection ctx;
          n = SDP_MAX_SIZE e;
          ev1 = [RtcSetLocalDescription pc ''offer'']
      in
      if rtcSetLocalDescription e pc ''offer'' \<noteq> RTC_ERR_SUCCESS
      then Inr (AVERROR_EXTERNAL, ctx, ev1)
      else if fst (rtcGetLocalDescription e pc n) < 0
      then Inr (AVERROR_EXTERNAL, ctx, ev1)
      else
        (case avctx ctx of
           None \<Rightarrow> Inl NullDeref
         | Some u \<Rightarrow>
             if ffurl_alloc e u < 0
             then Inr (ffurl_alloc e u, ctx, ev1 @ [Ffurl_alloc u])
             else
               (case post_headers e (bearer_token ctx) of
                  None \<Rightarrow> Inr (AVERROR ENOMEM, ctx, ev1 @ [Ffurl_alloc u, Ffurl_closep u])
                | Some headers \<Rightarrow>
                    (case c_string n (snd (rtcGetLocalDescription e pc n)) of
                       Inl f \<Rightarrow> Inl f
                     | Inr offer_sdp \<Rightarrow>
                         (let req = \<lparr>req_url = u, req_method = ''POST'',
                                     req_headers = Some headers, req_post_data = offer_sdp\<rparr>;
                              ev2 = ev1 @ [Ffurl_alloc u, Ffurl_connect req]
                          in
                          if ffurl_connect e req < 0
                          then Inr (ffurl_connect e req, ctx, ev2 @ [Ffurl_closep u])
                          else if fst (ffurl_read_complete e req n) < 0
                          then Inr (fst (ffurl_read_complete e req n), ctx,
                                    ev2 @ [Ffurl_read_complete n, Ffurl_closep u])
                          else
                            (case c_string n (snd (ffurl_read_complete e req n)) of
                               Inl f \<Rightarrow> Inl f
                             | Inr response_sdp \<Rightarrow>
                                 (let ev3 = ev2 @ [Ffurl_read_complete n,
                                        RtcSetRemoteDescription pc response_sdp ''answer'',
                                        Ffurl_closep u];
                                      ctx' = ctx\<lparr>resource_location :=
                                        (case av_opt_get_new_location e req of
                                           None \<Rightarrow> resource_location ctx
                                         | Some l \<Rightarrow> Some l)\<rparr>
                                  in
                                  if rtcSetRemoteDescription e pc response_sdp ''answer'' < 0
                                  then Inr (rtcSetRemoteDescription e pc response_sdp ''answer'',
                                            ctx, ev3)
                                  else if ffurl_closep e u < 0
                                  then Inr (ffurl_closep e u, ctx', ev3)
                                  else Inr (0, ctx', ev3))))))))"

section \<open>Waiting for the connection\<close>

text \<open>
  The loop that \<open>whip_write_header\<close> and \<open>whep_read_header\<close> both contain, word for word:
  \<^verbatim>\<open>while (state != RTC_CONNECTED) {
    if (state == RTC_FAILED || state == RTC_CLOSED || av_gettime_relative() > timeout)
        { ret = AVERROR_EXTERNAL; goto fail; }
    av_usleep(1000);
  }\<close>
  The state field is written by the engine's callback from another thread, and the clock
  runs; \<open>observe e k\<close> is what the \<open>k\<close>-th pass of the loop sees of both (one value of the
  field per pass: its reads within a pass are not told apart). The loop has no bound of
  its own, so the function is partial; it returns the code, the state seen last and the
  number of sleeps.
\<close>

partial_function (option) wait_for_connection ::
  "env \<Rightarrow> int \<Rightarrow> nat \<Rightarrow> (int \<times> rtcState \<times> nat) option" where
  "wait_for_connection e timeout k =
     (case observe e k of (s, now) \<Rightarrow>
        if s = RTC_CONNECTED then Some (0, s, k)
        else if s = RTC_FAILED \<or> s = RTC_CLOSED \<or> now > timeout
        then Some (AVERROR_EXTERNAL, s, k)
        else wait_for_connection e timeout (Suc k))"

declare wait_for_connection.simps [code]

definition whip_write_header ::
  "env \<Rightarrow> WebRTCContext \<Rightarrow> (fault + (int \<times> WebRTCContext \<times> event list)) option" where
  "whip_write_header e ctx =
     (case ff_webrtc_create_resource e ctx of
        Inl f \<Rightarrow> Some (Inl f)
      | Inr (ret, c, ev) \<Rightarrow>
          if ret < 0 then Some (Inr (ret, c, ev))
          else
            (case wait_for_connection e (av_gettime_relative e + connection_timeout c) 0 of
               None \<Rightarrow> None
             | Some (r, s, k) \<Rightarrow>
                 Some (Inr (r, c\<lparr>state := s\<rparr>, ev @ replicate k (Av_usleep 1000)))))"

section \<open>Setting up a session\<close>

text \<open>
  The set-up functions leave through \<open>goto fail\<close> with a value of \<open>ret\<close>, or run on. A
  step of them ends in one of three ways; the state it carries is whatever the function
  has changed so far.
\<close>

datatype 's step = Crash fault | Goto_fail int 's | Continue 's

definition then_step :: "'s step \<Rightarrow> ('s \<Rightarrow> 's step) \<Rightarrow> 's step" where
  "then_step x f = (case x of Continue s \<Rightarrow> f s | Goto_fail r s \<Rightarrow> Goto_fail r s | Crash c \<Rightarrow> Crash c)"

subsection \<open>Common code (webrtc.c)\<close>

text \<open>\<open>ff_webrtc_init_connection\<close>. When the callback cannot be set the peer connection is
  deleted, and its handle stays in the context.\<close>

definition ff_webrtc_init_connection ::
  "env \<Rightarrow> WebRTCContext \<Rightarrow> int \<times> WebRTCContext \<times> event list" where
  "ff_webrtc_init_connection e ctx =
     (let pc = rtcCreatePeerConnection e;
          c = ctx\<lparr>peer_connection := pc\<rparr>
      in if pc = 0 then (AVERROR_EXTERNAL, c, [RtcCreatePeerConnection])
         else if rtcSetStateChangeCallback e pc \<noteq> 0
         then (AVERROR_EXTERNAL, c,
               [RtcCreatePeerConnection, RtcSetUserPointer pc, RtcSetStateChangeCallback pc,
                RtcDeletePeerConnection pc])
         else (0, c, [RtcCreatePeerConnection, RtcSetUserPointer pc, RtcSetStateChangeCallback pc]))"

text \<open>The callback the engine calls on a state change: it stores the new state.\<close>

definition webrtc_on_state_change :: "rtcState \<Rightarrow> WebRTCContext \<Rightarrow> WebRTCContext" where
  "webrtc_on_state_change s ctx = ctx\<lparr>state := s\<rparr>"

definition ff_webrtc_generate_media_stream_id :: "env \<Rightarrow> int \<times> string" where
  "ff_webrtc_generate_media_stream_id e =
     (case av_random_bytes e of (ret, uuid) \<Rightarrow>
        if ret < 0 then (ret, []) else (0, av_uuid_unparse e uuid))"

text \<open>\<open>AVIO_FLAG_READ | AVIO_FLAG_WRITE\<close>, with the values of avio.h.\<close>

definition AVIO_FLAG_READ_WRITE :: int where
  "AVIO_FLAG_READ_WRITE = 3"

definition ff_webrtc_init_urlcontext ::
  "env \<Rightarrow> WebRTCContext \<Rightarrow> nat \<Rightarrow> fault + (int \<times> WebRTCContext)" where
  "ff_webrtc_init_urlcontext e ctx track_idx =
     (case tracks ctx of
        None \<Rightarrow> Inl NullDeref
      | Some ts \<Rightarrow>
          if \<not> track_idx < length ts then Inl OutOfBounds
          else if \<not> av_malloc_ok e (Alloc_rtp_url_context track_idx)
          then Inr (AVERROR ENOMEM,
                    ctx\<lparr>tracks := Some (ts[track_idx := (ts ! track_idx)\<lparr>rtp_url_context := None\<rparr>])\<rparr>)
          else Inr (0,
                    ctx\<lparr>tracks := Some (ts[track_idx := (ts ! track_idx)\<lparr>rtp_url_context :=
                      Some \<lparr>prot = ''webrtc'', max_packet_size = RTP_MAX_PACKET_SIZE,
                            flags = AVIO_FLAG_READ_WRITE, url_rw_timeout = rw_timeout ctx\<rparr>\<rparr>])\<rparr>))"

fun ff_webrtc_convert_codec :: "AVCodecID \<Rightarrow> int \<times> rtcCodec" where
  "ff_webrtc_convert_codec AV_CODEC_ID_H264 = (0, RTC_CODEC_H264)"
| "ff_webrtc_convert_codec AV_CODEC_ID_HEVC = (0, RTC_CODEC_H265)"
| "ff_webrtc_convert_codec AV_CODEC_ID_AV1 = (0, RTC_CODEC_AV1)"
| "ff_webrtc_convert_codec AV_CODEC_ID_VP8 = (0, RTC_CODEC_VP8)"
| "ff_webrtc_convert_codec AV_CODEC_ID_VP9 = (0, RTC_CODEC_VP9)"
| "ff_webrtc_convert_codec AV_CODEC_ID_OPUS = (0, RTC_CODEC_OPUS)"
| "ff_webrtc_convert_codec AV_CODEC_ID_AAC = (0, RTC_CODEC_AAC)"
| "ff_webrtc_convert_codec AV_CODEC_ID_PCM_ALAW = (0, RTC_CODEC_PCMA)"
| "ff_webrtc_convert_codec AV_CODEC_ID_PCM_MULAW = (0, RTC_CODEC_PCMU)"
| "ff_webrtc_convert_codec (AV_CODEC_ID_OTHER n) = (AVERROR EINVAL, RTC_CODEC_NONE)"

text \<open>A zeroed \<open>WebRTCTrack\<close>, as \<open>av_mallocz\<close> leaves it.\<close>

definition zero_track :: WebRTCTrack where
  "zero_track = \<lparr>track_avctx = None, track_id = 0, rtp_ctx = None, rtp_url_context = None\<rparr>"

definition update_track :: "WebRTCContext \<Rightarrow> nat \<Rightarrow> (WebRTCTrack \<Rightarrow> WebRTCTrack) \<Rightarrow> WebRTCContext" where
  "update_track ctx i f =
     ctx\<lparr>tracks := (case tracks ctx of None \<Rightarrow> None | Some ts \<Rightarrow> Some (ts[i := f (ts ! i)]))\<rparr>"

subsection \<open>The WHIP muxer's init\<close>

text \<open>The C library's string functions, on the text of a buffer: \<open>strstr\<close> gives the rest
  from the first occurrence on, \<open>strchr\<close> the offset of the first occurrence; \<open>%d\<close> prints a
  stream index in decimal.\<close>

fun strstr :: "string \<Rightarrow> string \<Rightarrow> string option" where
  "strstr [] needle = (if needle = [] then Some [] else None)"
| "strstr (c # cs) needle =
     (if take (length needle) (c # cs) = needle then Some (c # cs) else strstr cs needle)"

definition strchr :: "string \<Rightarrow> char \<Rightarrow> nat option" where
  "strchr s c = (if c \<in> set s then Some (length (takeWhile (\<lambda>x. x \<noteq> c) s)) else None)"

fun string_of_nat :: "nat \<Rightarrow> string" where
  "string_of_nat n =
     (if n < 10 then [char_of (48 + n)]
      else string_of_nat (n div 10) @ [char_of (48 + n mod 10)])"

declare string_of_nat.simps [simp del]

text \<open>
  The profile of a track: from \<open>a=fmtp:\<close> on, skip ten characters and take up to the
  carriage return (\<open>av_strndup(fmtp + 10, strchr(fmtp, '\r') - fmtp - 10)\<close>), then append
  the level-asymmetry parameter. Without a carriage return the length is computed from a
  NULL pointer; with one before offset ten it is negative, and the copy runs to the end of
  the text; a failed \<open>av_strndup\<close> is printed through \<open>%s\<close>.
\<close>

definition fmtp_profile :: "env \<Rightarrow> string \<Rightarrow> fault + string option" where
  "fmtp_profile e fmtp =
     (case strchr fmtp (CHR 0x0D) of
        None \<Rightarrow> Inl OutOfBounds
      | Some k \<Rightarrow>
          (case av_asprintf e (if 10 \<le> k then take (k - 10) (drop 10 fmtp) else drop 10 fmtp) of
             None \<Rightarrow> Inl NullDeref
           | Some pr \<Rightarrow> Inr (av_asprintf e (pr @ '';level-asymmetry-allowed=1''))))"

text \<open>
  The body of the loop over the caller's streams, for stream \<open>i\<close>. The state is the
  context, the text in \<open>sdp_stream\<close> (cleared only when a profile was found) and the
  trace. A stream that is neither video nor audio is skipped.
\<close>

definition whip_add_track ::
  "env \<Rightarrow> string \<Rightarrow> nat \<Rightarrow> AVStream \<Rightarrow> WebRTCContext \<times> string \<times> event list
     \<Rightarrow> (WebRTCContext \<times> string \<times> event list) step" where
  "whip_add_track e media_stream_id i stream s =
     (case s of (ctx, sdp_stream, ev) \<Rightarrow>
        (case ff_webrtc_init_urlcontext e ctx i of
           Inl f \<Rightarrow> Crash f
         | Inr (ret, c1) \<Rightarrow>
             if ret < 0 then Goto_fail ret (c1, sdp_stream, ev)
             else
               (case ff_rtp_chain_mux_open e i of (ret2, p) \<Rightarrow>
                  if ret2 < 0 then Goto_fail ret2 (c1, sdp_stream, ev @ [Ff_rtp_chain_mux_open i])
                  else
                    (let c2 = update_track c1 i (\<lambda>t. t\<lparr>rtp_ctx := Some p\<rparr>);
                         ev2 = ev @ [Ff_rtp_chain_mux_open i];
                         conv = ff_webrtc_convert_codec (codec_id (codecpar stream))
                     in
                     if fst conv < 0 then Goto_fail (fst conv) (c2, sdp_stream, ev2)
                     else
                       (case ff_sdp_write_media e i sdp_stream of (ret3, sdp2) \<Rightarrow>
                          if ret3 < 0 then Goto_fail ret3 (c2, sdp2, ev2)
                          else
                            (case (case strstr sdp2 ''a=fmtp:'' of
                                     None \<Rightarrow> Inr (None, sdp2)
                                   | Some fmtp \<Rightarrow>
                                       (case fmtp_profile e fmtp of
                                          Inl f \<Rightarrow> Inl f
                                        | Inr pr \<Rightarrow> Inr (pr, []))) of
                               Inl f \<Rightarrow> Crash f
                             | Inr (pr, sdp3) \<Rightarrow>
                                 (let track_init = \<lparr>direction = RTC_DIRECTION_SENDONLY,
                                        codec = snd conv,
                                        payloadType = rtp_mux_payload_type e p,
                                        ssrc = rtp_mux_ssrc e p,
                                        mid = av_asprintf e (string_of_nat i),
                                        name = Some (LIBAVFORMAT_IDENT e),
                                        msid = Some media_stream_id,
                                        trackId = av_asprintf e
                                          (media_stream_id @ ''-video-'' @ string_of_nat i),
                                        profile = pr\<rparr>;
                                      pc = peer_connection c2;
                                      tid = rtcAddTrackEx e pc track_init;
                                      c3 = update_track c2 i (\<lambda>t. t\<lparr>track_id := tid\<rparr>);
                                      ev3 = ev2 @ [RtcAddTrackEx pc track_init]
                                  in if tid < 0 then Goto_fail (AVERROR EINVAL) (c3, sdp3, ev3)
                                     else Continue (c3, sdp3, ev3))))))))"

definition whip_init_stream ::
  "env \<Rightarrow> string \<Rightarrow> nat \<Rightarrow> AVStream \<Rightarrow> WebRTCContext \<times> string \<times> event list
     \<Rightarrow> (WebRTCContext \<times> string \<times> event list) step" where
  "whip_init_stream e media_stream_id i stream s =
     (case s of (ctx, sdp_stream, ev) \<Rightarrow>
        (case codec_type (codecpar stream) of
           AVMEDIA_TYPE_VIDEO \<Rightarrow>
             whip_add_track e media_stream_id i stream
               (ctx, sdp_stream, ev @ [Avpriv_set_pts_info i 32 1 90000])
         | AVMEDIA_TYPE_AUDIO \<Rightarrow>
             if sample_rate (codecpar stream) \<noteq> 48000 then Goto_fail (AVERROR EINVAL) s
             else if ch_layout (codecpar stream) \<noteq> AV_CHANNEL_LAYOUT_STEREO
             then Goto_fail (AVERROR EINVAL) s
             else whip_add_track e media_stream_id i stream
                    (ctx, sdp_stream,
                     ev @ [Avpriv_set_pts_info i 32 1 (sample_rate (codecpar stream))])
         | AVMEDIA_TYPE_OTHER x \<Rightarrow> Continue s))"

text \<open>The loop \<open>for (i = 0; i < avctx->nb_streams; ++i)\<close>, from index \<open>i\<close> over the streams
  still to come.\<close>

fun whip_init_streams ::
  "env \<Rightarrow> string \<Rightarrow> nat \<Rightarrow> AVStream list \<Rightarrow> WebRTCContext \<times> string \<times> event list
     \<Rightarrow> (WebRTCContext \<times> string \<times> event list) step" where
  "whip_init_streams e media_stream_id i [] s = Continue s"
| "whip_init_streams e media_stream_id i (stream # rest) s =
     then_step (whip_init_stream e media_stream_id i stream s)
       (whip_init_streams e media_stream_id (Suc i) rest)"

text \<open>\<open>whip_init\<close>. Its \<open>fail\<close> label returns \<open>ret\<close> and releases nothing; the field
  \<open>nb_tracks\<close> is not assigned.\<close>

definition whip_init ::
  "env \<Rightarrow> AVFormatContext \<Rightarrow> WebRTCContext \<Rightarrow> fault + (int \<times> WebRTCContext \<times> event list)" where
  "whip_init e a ctx0 =
     (case ff_webrtc_init_connection e (ctx0\<lparr>avctx := Some (url a)\<rparr>) of (ret, c1, ev1) \<Rightarrow>
        if ret < 0 then Inr (ret, c1, ev1)
        else if \<not> av_malloc_ok e Alloc_tracks
        then Inr (AVERROR ENOMEM, c1\<lparr>tracks := None\<rparr>, ev1)
        else
          (let c2 = c1\<lparr>tracks := Some (replicate (length (streams a)) zero_track)\<rparr> in
           case ff_webrtc_generate_media_stream_id e of (ret2, media_stream_id) \<Rightarrow>
             if ret2 < 0 then Inr (ret2, c2, ev1)
             else
               (case whip_init_streams e media_stream_id 0 (streams a) (c2, [], ev1) of
                  Crash f \<Rightarrow> Inl f
                | Goto_fail r (c, sdp, ev) \<Rightarrow> Inr (r, c, ev)
                | Continue (c, sdp, ev) \<Rightarrow> Inr (0, c, ev))))"

subsection \<open>The WHEP demuxer's read_header\<close>

definition whep_video_track_init :: "env \<Rightarrow> string \<Rightarrow> rtcTrackInit" where
  "whep_video_track_init e media_stream_id =
     \<lparr>direction = RTC_DIRECTION_RECVONLY, codec = RTC_CODEC_H264, payloadType = 96,
      ssrc = av_get_random_seed e 0, mid = Some ''0'', name = Some (LIBAVFORMAT_IDENT e),
      msid = Some media_stream_id, trackId = av_asprintf e (media_stream_id @ ''-video''),
      profile = Some ''profile-level-id=42e01f;packetization-mode=1;level-asymmetry-allowed=1''\<rparr>"

definition whep_audio_track_init :: "env \<Rightarrow> string \<Rightarrow> rtcTrackInit" where
  "whep_audio_track_init e media_stream_id =
     \<lparr>direction = RTC_DIRECTION_RECVONLY, codec = RTC_CODEC_OPUS, payloadType = 97,
      ssrc = av_get_random_seed e 1, mid = Some ''1'', name = Some (LIBAVFORMAT_IDENT e),
      msid = Some media_stream_id, trackId = av_asprintf e (media_stream_id @ ''-audio''),
      profile = Some
        ''minptime=10;maxaveragebitrate=96000;stereo=1;sprop-stereo=1;useinbandfec=1''\<rparr>"

text \<open>The state of \<open>whep_read_header\<close>: the context, the streams created in the caller's
  AVFormatContext so far, the trace. First part: connection, track array, the two tracks.\<close>

definition whep_add_tracks ::
  "env \<Rightarrow> AVFormatContext \<Rightarrow> WebRTCContext
     \<Rightarrow> (WebRTCContext \<times> AVStream list \<times> event list) step" where
  "whep_add_tracks e a ctx0 =
     (case ff_webrtc_init_connection e ctx0 of (ret, c1, ev1) \<Rightarrow>
        if ret < 0 then Goto_fail ret (c1, [], ev1)
        else
          (case ff_webrtc_generate_media_stream_id e of (ret2, media_stream_id) \<Rightarrow>
             if ret2 < 0 then Goto_fail ret2 (c1, [], ev1)
             else if \<not> av_malloc_ok e Alloc_tracks
             then Goto_fail (AVERROR ENOMEM)
                    (c1\<lparr>tracks := None, nb_tracks := 2, avctx := Some (url a)\<rparr>, [], ev1)
             else
               (let c2 = c1\<lparr>tracks := Some [zero_track\<lparr>track_avctx := Some (url a)\<rparr>,
                                               zero_track\<lparr>track_avctx := Some (url a)\<rparr>],
                              nb_tracks := 2, avctx := Some (url a)\<rparr>;
                    pc = peer_connection c2;
                    video = whep_video_track_init e media_stream_id;
                    c3 = update_track c2 0 (\<lambda>t. t\<lparr>track_id := rtcAddTrackEx e pc video\<rparr>);
                    ev3 = ev1 @ [RtcAddTrackEx pc video]
                in
                if rtcAddTrackEx e pc video = 0 then Goto_fail AVERROR_EXTERNAL (c3, [], ev3)
                else
                  (let audio = whep_audio_track_init e media_stream_id;
                       c4 = update_track c3 1 (\<lambda>t. t\<lparr>track_id := rtcAddTrackEx e pc audio\<rparr>);
                       ev4 = ev3 @ [RtcAddTrackEx pc audio]
                   in
                   if rtcAddTrackEx e pc audio = 0 then Goto_fail AVERROR_EXTERNAL (c4, [], ev4)
                   else Continue (c4, [], ev4)))))"

text \<open>Second part: create the resource, wait for the connection.\<close>

definition whep_connect ::
  "env \<Rightarrow> WebRTCContext \<times> AVStream list \<times> event list
     \<Rightarrow> (WebRTCContext \<times> AVStream list \<times> event list) step option" where
  "whep_connect e s =
     (case s of (ctx, sts, ev) \<Rightarrow>
        (case ff_webrtc_create_resource e ctx of
           Inl f \<Rightarrow> Some (Crash f)
         | Inr (ret, c, ev') \<Rightarrow>
             if ret < 0 then Some (Goto_fail ret (c, sts, ev @ ev'))
             else
               (case wait_for_connection e (av_gettime_relative e + connection_timeout c) 0 of
                  None \<Rightarrow> None
                | Some (r, st, k) \<Rightarrow>
                    (let s' = (c\<lparr>state := st\<rparr>, sts, ev @ ev' @ replicate k (Av_usleep 1000))
                     in if r < 0 then Some (Goto_fail r s') else Some (Continue s')))))"

text \<open>A stream as \<open>avformat_new_stream\<close> creates it, before the parameters are copied.\<close>

definition new_stream :: AVStream where
  "new_stream = \<lparr>codecpar = \<lparr>codec_type = AVMEDIA_TYPE_OTHER 0, codec_id = AV_CODEC_ID_OTHER 0,
     sample_rate = 0, ch_layout = AV_CHANNEL_LAYOUT_OTHER 0\<rparr>, time_base = (0, 0)\<rparr>"

text \<open>
  Third part, the body of the loop over the tracks: read the track's negotiated
  description, open an SDP demuxer on it, bind it to the track, and create the public
  stream with the parameters of the demuxer's first stream. When no SDP demuxer is
  registered the code jumps to \<open>fail\<close> with \<open>ret\<close> as \<open>rtcGetTrackDescription\<close> left it.
\<close>

definition whep_open_track ::
  "env \<Rightarrow> nat \<Rightarrow> WebRTCContext \<times> AVStream list \<times> event list
     \<Rightarrow> (WebRTCContext \<times> AVStream list \<times> event list) step" where
  "whep_open_track e i s =
     (case s of (ctx, sts, ev) \<Rightarrow>
        (case track_at ctx (int i) of
           Inl f \<Rightarrow> Crash f
         | Inr t \<Rightarrow>
             (case rtcGetTrackDescription e (track_id t) (SDP_MAX_SIZE e) of (ret, text) \<Rightarrow>
                if ret < 0 then Goto_fail ret s
                else
                  (case c_string (SDP_MAX_SIZE e) text of
                     Inl f \<Rightarrow> Crash f
                   | Inr sdp_track \<Rightarrow>
                       if \<not> av_find_input_format_sdp e then Goto_fail ret s
                       else if \<not> av_malloc_ok e (Alloc_rtp_ctx i)
                       then Goto_fail (AVERROR ENOMEM)
                              (update_track ctx i (\<lambda>t. t\<lparr>rtp_ctx := None\<rparr>), sts, ev)
                       else
                         (let p = avformat_alloc_context e i;
                              c1 = update_track ctx i (\<lambda>t. t\<lparr>rtp_ctx := Some p\<rparr>);
                              ev1 = ev @ [Avformat_open_input i sdp_track]
                          in
                          if ff_copy_whiteblacklists e i < 0
                          then Goto_fail (ff_copy_whiteblacklists e i) (c1, sts, ev)
                          else if avformat_open_input e i sdp_track < 0
                          then Goto_fail (avformat_open_input e i sdp_track)
                                 (update_track ctx i (\<lambda>t. t\<lparr>rtp_ctx := None\<rparr>), sts, ev1)
                          else
                            (case ff_webrtc_init_urlcontext e c1 i of
                               Inl f \<Rightarrow> Crash f
                             | Inr (ret2, c2) \<Rightarrow>
                                 if ret2 < 0 then Goto_fail ret2 (c2, sts, ev1)
                                 else if ffio_fdopen e i < 0
                                 then Goto_fail (ffio_fdopen e i) (c2, sts, ev1 @ [Ffio_fdopen i])
                                 else if \<not> av_malloc_ok e (Alloc_stream i)
                                 then Goto_fail (AVERROR ENOMEM) (c2, sts, ev1 @ [Ffio_fdopen i])
                                 else if avcodec_parameters_copy e i < 0
                                 then Goto_fail (avcodec_parameters_copy e i)
                                        (c2, sts @ [new_stream],
                                         ev1 @ [Ffio_fdopen i, Avformat_new_stream i])
                                 else Continue
                                        (c2, sts @ [rtp_ctx_stream0 e p],
                                         ev1 @ [Ffio_fdopen i, Avformat_new_stream i])))))))"

text \<open>The loop \<open>for (int i = 0; i < nb_tracks; i++)\<close>, from index \<open>i\<close> with \<open>r\<close> passes
  to go.\<close>

fun whep_open_tracks ::
  "env \<Rightarrow> nat \<Rightarrow> nat \<Rightarrow> WebRTCContext \<times> AVStream list \<times> event list
     \<Rightarrow> (WebRTCContext \<times> AVStream list \<times> event list) step" where
  "whep_open_tracks e i 0 s = Continue s"
| "whep_open_tracks e i (Suc r) s =
     then_step (whep_open_track e i s) (whep_open_tracks e (Suc i) r)"

text \<open>
  \<open>whep_read_header\<close>: the three parts in turn; \<open>return 0\<close> when all ran through, and at
  \<open>fail\<close> the teardown \<open>ff_webrtc_deinit\<close>, then \<open>return ret\<close>. The result is the return
  value, the context, the streams it created in the caller's AVFormatContext (which has
  none when a demuxer's \<open>read_header\<close> is called) and the trace.
\<close>

definition whep_read_header ::
  "env \<Rightarrow> AVFormatContext \<Rightarrow> WebRTCContext
     \<Rightarrow> (fault + (int \<times> WebRTCContext \<times> AVStream list \<times> event list)) option" where
  "whep_read_header e a ctx0 =
     (case (case whep_add_tracks e a ctx0 of
              Continue s \<Rightarrow>
                (case whep_connect e s of
                   None \<Rightarrow> None
                 | Some (Continue (c, sts, ev)) \<Rightarrow>
                     Some (whep_open_tracks e 0 (nat (nb_tracks c)) (c, sts, ev))
                 | Some other \<Rightarrow> Some other)
            | other \<Rightarrow> Some other) of
        None \<Rightarrow> None
      | Some (Crash f) \<Rightarrow> Some (Inl f)
      | Some (Continue (c, sts, ev)) \<Rightarrow> Some (Inr (0, c, sts, ev))
      | Some (Goto_fail ret (c, sts, ev)) \<Rightarrow>
          (case ff_webrtc_deinit c of
             Inl f \<Rightarrow> Some (Inl f)
           | Inr (c', ev') \<Rightarrow> Some (Inr (ret, c', sts, ev @ ev'))))"

text \<open>The events that add a track to the peer connection.\<close>

fun is_add_track :: "event \<Rightarrow> bool" where
  "is_add_track (RtcAddTrackEx pc i) = True"
| "is_add_track _ = False"

section \<open>Stream configurations\<close>

text \<open>
  What the properties of \<open>whip_init\<close> speak about: an audio stream outside the one
  supported configuration; a codec for which \<open>ff_webrtc_convert_codec\<close> has an entry; a
  stream that passes the checks of \<open>whip_init\<close>; and an environment in which the foreign
  calls of \<open>whip_init\<close> all succeed (and the SDP writer ends its \<open>a=fmtp:\<close> line with a
  carriage return, as it does).
\<close>

definition unsupported_audio :: "AVStream \<Rightarrow> bool" where
  "unsupported_audio st =
     (codec_type (codecpar st) = AVMEDIA_TYPE_AUDIO \<and>
      (sample_rate (codecpar st) \<noteq> 48000 \<or> ch_layout (codecpar st) \<noteq> AV_CHANNEL_LAYOUT_STEREO))"

definition in_conversion_table :: "AVCodecID \<Rightarrow> bool" where
  "in_conversion_table cid = (fst (ff_webrtc_convert_codec cid) = 0)"

definition stream_accepted :: "AVStream \<Rightarrow> bool" where
  "stream_accepted st =
     (case codec_type (codecpar st) of
        AVMEDIA_TYPE_VIDEO \<Rightarrow> in_conversion_table (codec_id (codecpar st))
      | AVMEDIA_TYPE_AUDIO \<Rightarrow>
          sample_rate (codecpar st) = 48000 \<and> ch_layout (codecpar st) = AV_CHANNEL_LAYOUT_STEREO
          \<and> in_conversion_table (codec_id (codecpar st))
      | AVMEDIA_TYPE_OTHER x \<Rightarrow> True)"

definition foreign_calls_succeed :: "env \<Rightarrow> bool" where
  "foreign_calls_succeed e =
     (rtcCreatePeerConnection e \<noteq> 0 \<and> (\<forall>pc. rtcSetStateChangeCallback e pc = 0) \<and>
      (\<forall>x. av_malloc_ok e x) \<and> 0 \<le> fst (av_random_bytes e) \<and>
      (\<forall>i. 0 \<le> fst (ff_rtp_chain_mux_open e i)) \<and>
      (\<forall>i buf. 0 \<le> fst (ff_sdp_write_media e i buf)) \<and>
      (\<forall>i buf fmtp. strstr (snd (ff_sdp_write_media e i buf)) ''a=fmtp:'' = Some fmtp
         \<longrightarrow> CHR 0x0D \<in> set fmtp) \<and>
      (\<forall>pc init. 0 \<le> rtcAddTrackEx e pc init))"

text \<open>A stream that is neither video nor audio (\<open>AVMEDIA_TYPE_DATA\<close>); the loop of
  \<open>whip_init\<close> skips it.\<close>

definition data_stream :: AVStream where
  "data_stream = \<lparr>codecpar = \<lparr>codec_type = AVMEDIA_TYPE_OTHER 2, codec_id = AV_CODEC_ID_OTHER 0,
     sample_rate = 0, ch_layout = AV_CHANNEL_LAYOUT_OTHER 0\<rparr>, time_base = (0, 1)\<rparr>"

section \<open>Sample sessions\<close>

text \<open>Concrete contexts, packets and environments on which the properties below are run.\<close>

text \<open>An environment in which every foreign call succeeds and the engine reports
  \<open>RTC_CONNECTED\<close> at the fourth look.\<close>

definition env0 :: env where
  "env0 = \<lparr>
     rtcCreatePeerConnection = 1,
     rtcSetStateChangeCallback = (\<lambda>pc. 0),
     rtcAddTrackEx = (\<lambda>pc init. if codec init = RTC_CODEC_OPUS then 3 else 2),
     rtcSetLocalDescription = (\<lambda>pc ty. 0),
     rtcGetLocalDescription = (\<lambda>pc n. (6, ''offer'')),
     rtcSetRemoteDescription = (\<lambda>pc sdp ty. 0),
     rtcGetTrackDescription = (\<lambda>tr n. if tr = 2 then (8, ''m=video'') else (8, ''m=audio'')),
     ffurl_alloc = (\<lambda>u. 0),
     ffurl_connect = (\<lambda>r. 0),
     ffurl_read_complete = (\<lambda>r n. (int (length (take n ''answer'')), take n ''answer'')),
     ffurl_closep = (\<lambda>u. 0),
     av_opt_get_new_location = (\<lambda>r. Some ''http://whip.example/resource/7''),
     av_malloc_ok = (\<lambda>a. True),
     av_random_bytes = (0, ''0123456789abcdef''),
     av_uuid_unparse = (\<lambda>b. ''00112233-4455-6677-8899-aabbccddeeff''),
     av_get_random_seed = (\<lambda>k. of_nat k + 1000),
     av_gettime_relative = 5000,
     observe = (\<lambda>k. (if k < 3 then RTC_CONNECTING else RTC_CONNECTED, 6000 + 1000 * int k)),
     av_write_frame = (\<lambda>c p. 0),
     ff_rtp_chain_mux_open = (\<lambda>i. (0, 100 + i)),
     rtp_mux_payload_type = (\<lambda>p. 96 + int p - 100),
     rtp_mux_ssrc = (\<lambda>p. of_nat p),
     ff_sdp_write_media = (\<lambda>i buf. (0, buf @ ''m=video 0 RTP/AVP 96'' @ CRLF)),
     av_find_input_format_sdp = True,
     avformat_alloc_context = (\<lambda>i. 200 + i),
     ff_copy_whiteblacklists = (\<lambda>i. 0),
     avformat_open_input = (\<lambda>i sdp. 0),
     ffio_fdopen = (\<lambda>i. 0),
     avcodec_parameters_copy = (\<lambda>i. 0),
     rtp_ctx_stream0 = (\<lambda>p. if p = 200
        then \<lparr>codecpar = \<lparr>codec_type = AVMEDIA_TYPE_VIDEO, codec_id = AV_CODEC_ID_H264,
                sample_rate = 0, ch_layout = AV_CHANNEL_LAYOUT_OTHER 0\<rparr>, time_base = (1, 90000)\<rparr>
        else \<lparr>codecpar = \<lparr>codec_type = AVMEDIA_TYPE_AUDIO, codec_id = AV_CODEC_ID_OPUS,
                sample_rate = 48000, ch_layout = AV_CHANNEL_LAYOUT_STEREO\<rparr>, time_base = (1, 48000)\<rparr>),
     LIBAVFORMAT_IDENT = ''Lavf60.16.100'',
     SDP_MAX_SIZE = 16384\<rparr>"

definition track_video :: WebRTCTrack where
  "track_video = \<lparr>track_avctx = Some ''http://whip.example/in'', track_id = 1,
     rtp_ctx = Some 100,
     rtp_url_context = Some \<lparr>prot = ''webrtc'', max_packet_size = 1280, flags = 3,
       url_rw_timeout = 1000000\<rparr>\<rparr>"

definition track_audio :: WebRTCTrack where
  "track_audio = \<lparr>track_avctx = Some ''http://whip.example/in'', track_id = 2,
     rtp_ctx = Some 101,
     rtp_url_context = Some \<lparr>prot = ''webrtc'', max_packet_size = 1280, flags = 3,
       url_rw_timeout = 1000000\<rparr>\<rparr>"

definition session2 :: "rtcState \<Rightarrow> WebRTCContext" where
  "session2 s = \<lparr>avctx = Some ''http://whip.example/in'', peer_connection = 1, state = s,
     tracks = Some [track_video, track_audio], nb_tracks = 2,
     resource_location = Some ''http://whip.example/resource/7'', bearer_token = None,
     connection_timeout = 10000000, rw_timeout = 1000000\<rparr>"

text \<open>The same session after \<open>ff_webrtc_deinit\<close>.\<close>

definition session2_torn_down :: "rtcState \<Rightarrow> WebRTCContext" where
  "session2_torn_down s = \<lparr>avctx = Some ''http://whip.example/in'', peer_connection = 0,
     state = s, tracks = None, nb_tracks = 2, resource_location = None, bearer_token = None,
     connection_timeout = 10000000, rw_timeout = 1000000\<rparr>"

definition delete_request :: http_request where
  "delete_request = \<lparr>req_url = ''http://whip.example/resource/7'', req_method = ''DELETE'',
     req_headers = None, req_post_data = []\<rparr>"

text \<open>The server refuses the DELETE: \<open>ffurl_connect\<close> fails with \<open>AVERROR(EIO)\<close>.\<close>

definition env_delete_fails :: env where
  "env_delete_fails = env0\<lparr>ffurl_connect := (\<lambda>r. if req_method r = ''DELETE'' then - 5 else 0)\<rparr>"

definition packet1 :: AVPacket where
  "packet1 = \<lparr>stream_index = 1, pkt_data = ''opus''\<rparr>"

text \<open>
  Modelled from the spec: \<open>ffurl_read_complete\<close> (libavformat/avio.c) is not among the
  sources at hand; the spec has it as "read the complete response into a caller buffer".
  It is given the buffer and its size and nothing else, so of a response body it stores
  the first \<open>n\<close> bytes and returns how many it stored; an empty body is end of file.
\<close>

definition read_up_to :: "string \<Rightarrow> nat \<Rightarrow> int \<times> string" where
  "read_up_to body n =
     (if body = [] then (AVERROR_EOF, []) else (int (length (take n body)), take n body))"

text \<open>A response body of 16388 bytes, and the environment whose server answers the POST
  with a given body.\<close>

definition oversized_answer :: string where
  "oversized_answer = replicate 16383 (CHR ''a'') @ [CHR 0x00] @ ''tail''"

definition env_answer :: "string \<Rightarrow> env" where
  "env_answer body = env0\<lparr>ffurl_read_complete := (\<lambda>r. read_up_to body)\<rparr>"

text \<open>A session whose tracks are added and whose resource is not yet created.\<close>

definition session_new :: WebRTCContext where
  "session_new = \<lparr>avctx = Some ''http://whip.example/in'', peer_connection = 1, state = RTC_NEW,
     tracks = Some [track_video, track_audio], nb_tracks = 2,
     resource_location = None, bearer_token = Some ''secret'',
     connection_timeout = 10000000, rw_timeout = 1000000\<rparr>"

text \<open>The caller's context and the untouched private data at the start of a WHEP open.\<close>

definition avctx_whep :: AVFormatContext where
  "avctx_whep = \<lparr>url = ''http://whep.example/out'', max_delay = 0, streams = []\<rparr>"

definition session_fresh :: WebRTCContext where
  "session_fresh = \<lparr>avctx = None, peer_connection = 0, state = RTC_NEW, tracks = None,
     nb_tracks = 0, resource_location = None, bearer_token = None,
     connection_timeout = 10000000, rw_timeout = 1000000\<rparr>"

text \<open>Two more engines: one reports New, Connecting, Failed; one stays at Connecting.\<close>

definition env_failed :: env where
  "env_failed = env0\<lparr>observe := (\<lambda>k. (if k = 0 then RTC_NEW else if k = 1 then RTC_CONNECTING
                                       else RTC_FAILED, 6000 + 1000 * int k))\<rparr>"

definition env_silent :: env where
  "env_silent = env0\<lparr>observe := (\<lambda>k. (RTC_CONNECTING, 6000 + 1000 * int k))\<rparr>"

text \<open>Caller streams for a WHIP open.\<close>

definition video_h264 :: AVStream where
  "video_h264 = \<lparr>codecpar = \<lparr>codec_type = AVMEDIA_TYPE_VIDEO, codec_id = AV_CODEC_ID_H264,
     sample_rate = 0, ch_layout = AV_CHANNEL_LAYOUT_OTHER 0\<rparr>, time_base = (1, 25)\<rparr>"

definition audio_opus :: "int \<Rightarrow> AVChannelLayout \<Rightarrow> AVStream" where
  "audio_opus rate layout = \<lparr>codecpar = \<lparr>codec_type = AVMEDIA_TYPE_AUDIO,
     codec_id = AV_CODEC_ID_OPUS, sample_rate = rate, ch_layout = layout\<rparr>, time_base = (1, rate)\<rparr>"

definition avctx_whip :: "AVStream list \<Rightarrow> AVFormatContext" where
  "avctx_whip ss = \<lparr>url = ''http://whip.example/in'', max_delay = 0, streams = ss\<rparr>"

text \<open>The request that creates the resource: the offer, posted as SDP to a URL.\<close>

definition offer_request :: "string \<Rightarrow> http_request" where
  "offer_request u = \<lparr>req_url = u, req_method = ''POST'',
     req_headers = Some (''Content-type: application/sdp'' @ CRLF), req_post_data = ''offer''\<rparr>"

text \<open>A libavformat in which no SDP demuxer is registered: \<open>av_find_input_format("sdp")\<close>
  returns NULL. Everything else is as in \<open>env0\<close>.\<close>

definition env_no_sdp :: env where
  "env_no_sdp = env0\<lparr>av_find_input_format_sdp := False\<rparr>"

text \<open>An engine that refuses the state-change callback.\<close>

definition env_callback_fails :: env where
  "env_callback_fails = env0\<lparr>rtcSetStateChangeCallback := (\<lambda>pc. - 1)\<rparr>"

text \<open>The WHEP session of \<open>avctx_whep\<close> once its two tracks are added, the same session once
  the resource is created and the connection is up, and the trace of the open up to
  there.\<close>

definition session_added :: WebRTCContext where
  "session_added = \<lparr>avctx = Some ''http://whep.example/out'', peer_connection = 1,
     state = RTC_NEW,
     tracks = Some [\<lparr>track_avctx = Some ''http://whep.example/out'', track_id = 2,
                      rtp_ctx = None, rtp_url_context = None\<rparr>,
                    \<lparr>track_avctx = Some ''http://whep.example/out'', track_id = 3,
                      rtp_ctx = None, rtp_url_context = None\<rparr>],
     nb_tracks = 2, resource_location = None, bearer_token = None,
     connection_timeout = 10000000, rw_timeout = 1000000\<rparr>"

definition session_connected :: WebRTCContext where
  "session_connected = session_added\<lparr>state := RTC_CONNECTED,
     resource_location := Some ''http://whip.example/resource/7''\<rparr>"

definition egress_setup_trace :: "env \<Rightarrow> event list" where
  "egress_setup_trace e =
     [RtcCreatePeerConnection, RtcSetUserPointer 1, RtcSetStateChangeCallback 1,
      RtcAddTrackEx 1 (whep_video_track_init e ''00112233-4455-6677-8899-aabbccddeeff''),
      RtcAddTrackEx 1 (whep_audio_track_init e ''00112233-4455-6677-8899-aabbccddeeff''),
      RtcSetLocalDescription 1 ''offer'', Ffurl_alloc ''http://whep.example/out'',
      Ffurl_connect (offer_request ''http://whep.example/out''), Ffurl_read_complete 16384,
      RtcSetRemoteDescription 1 ''answer'' ''answer'', Ffurl_closep ''http://whep.example/out'',
      Av_usleep 1000, Av_usleep 1000, Av_usleep 1000]"

text \<open>The WHIP session of a caller with one H264 and one Opus stream, in connection state
  \<open>s\<close> and with resource location \<open>loc\<close>: each track holds an RTP context, a URL context and
  an engine track, and \<open>nb_tracks\<close> is 0, as the zeroed private data had it.\<close>

definition session_ingest :: "rtcState \<Rightarrow> string option \<Rightarrow> WebRTCContext" where
  "session_ingest s loc = \<lparr>avctx = Some ''http://whip.example/in'', peer_connection = 1,
     state = s,
     tracks = Some
       [\<lparr>track_avctx = None, track_id = 2, rtp_ctx = Some 100,
         rtp_url_context = Some \<lparr>prot = ''webrtc'', max_packet_size = 1280, flags = 3,
           url_rw_timeout = 1000000\<rparr>\<rparr>,
        \<lparr>track_avctx = None, track_id = 3, rtp_ctx = Some 101,
         rtp_url_context = Some \<lparr>prot = ''webrtc'', max_packet_size = 1280, flags = 3,
           url_rw_timeout = 1000000\<rparr>\<rparr>],
     nb_tracks = 0, resource_location = loc, bearer_token = None,
     connection_timeout = 10000000, rw_timeout = 1000000\<rparr>"

section \<open>Properties\<close>

subsection \<open>Receiving on a track\<close>

text \<open>
  C9. For every receive on a track's transport binding: the engine's not-available result
  becomes \<open>AVERROR(EAGAIN)\<close>, its too-small result becomes \<open>AVERROR_BUFFER_TOO_SMALL\<close>, any
  other result that is not success becomes \<open>AVERROR_EOF\<close>, and success returns the size the
  engine stored back, the number of bytes read. In every case the engine is left in the
  state its single receive call left it in: the binding consumes nothing of its own, so a
  message the engine kept on a too-small result is still there.
\<close>

theorem webrtc_read_result_mapping:
  assumes "recv eng (track_id t) sz = (ret, n, eng')"
  shows "snd (webrtc_read recv eng t sz) = eng' \<and>
    (ret = RTC_ERR_NOT_AVAIL \<longrightarrow> fst (webrtc_read recv eng t sz) = AVERROR EAGAIN) \<and>
    (ret = RTC_ERR_TOO_SMALL \<longrightarrow> fst (webrtc_read recv eng t sz) = AVERROR_BUFFER_TOO_SMALL) \<and>
    (ret \<noteq> RTC_ERR_SUCCESS \<and> ret \<noteq> RTC_ERR_NOT_AVAIL \<and> ret \<noteq> RTC_ERR_TOO_SMALL \<longrightarrow>
       fst (webrtc_read recv eng t sz) = AVERROR_EOF) \<and>
    (ret = RTC_ERR_SUCCESS \<longrightarrow> fst (webrtc_read recv eng t sz) = n)"
  using assms
  by (simp add: webrtc_read_def RTC_ERR_SUCCESS_def RTC_ERR_NOT_AVAIL_def
      RTC_ERR_TOO_SMALL_def)

theorem webrtc_read_result_mapping_witness:
  "webrtc_read queue_engine [] track_video 1280 = (AVERROR EAGAIN, []) \<and>
   webrtc_read queue_engine [''hello''] track_video 3 = (AVERROR_BUFFER_TOO_SMALL, [''hello'']) \<and>
   webrtc_read queue_engine [''hello''] track_audio 1280 = (AVERROR_EOF, [''hello'']) \<and>
   webrtc_read queue_engine [''hello'', ''you''] track_video 1280 = (5, [''you''])"
proof -
  have a: "queue_engine [] (track_id track_video) 1280 = (RTC_ERR_NOT_AVAIL, 1280, [])"
    by (simp add: queue_engine_def track_video_def)
  have b: "queue_engine [''hello''] (track_id track_video) 3 = (RTC_ERR_TOO_SMALL, 5, [''hello''])"
    by (simp add: queue_engine_def track_video_def)
  have c: "queue_engine [''hello''] (track_id track_audio) 1280 = (RTC_ERR_INVALID, 1280, [''hello''])"
    by (simp add: queue_engine_def track_audio_def)
  have d: "queue_engine [''hello'', ''you''] (track_id track_video) 1280
             = (RTC_ERR_SUCCESS, 5, [''you''])"
    by (simp add: queue_engine_def track_video_def)
  have codes: "RTC_ERR_INVALID \<noteq> RTC_ERR_SUCCESS \<and> RTC_ERR_INVALID \<noteq> RTC_ERR_NOT_AVAIL
      \<and> RTC_ERR_INVALID \<noteq> RTC_ERR_TOO_SMALL"
    by (simp add: RTC_ERR_INVALID_def RTC_ERR_SUCCESS_def RTC_ERR_NOT_AVAIL_def
        RTC_ERR_TOO_SMALL_def)
  show ?thesis
    using webrtc_read_result_mapping [of queue_engine "[]" track_video 1280, OF a]
      webrtc_read_result_mapping [of queue_engine "[''hello'']" track_video 3, OF b]
      webrtc_read_result_mapping [of queue_engine "[''hello'']" track_audio 1280, OF c]
      webrtc_read_result_mapping [of queue_engine "[''hello'', ''you'']" track_video 1280, OF d]
      codes
    by (simp add: prod_eq_iff)
qed

subsection \<open>Writing a packet\<close>

text \<open>
  C1. For every ingest session and every packet written to one of its streams (the track
  array is allocated and the packet's stream index lies inside it): if the mirrored
  connection state is not \<open>RTC_CONNECTED\<close> the write returns \<open>AVERROR(EINVAL)\<close>, the code's
  not-connected error, and its trace is empty, so nothing reaches an RTP writer; if the
  state is \<open>RTC_CONNECTED\<close> the one thing it does is \<open>av_write_frame\<close> on the RTP context of
  the track the packet's stream index names, and it returns that call's result.
\<close>

theorem whip_write_packet_connected_guard:
  assumes "tracks ctx = Some ts"
    and "0 \<le> stream_index pkt" and "stream_index pkt < int (length ts)"
  shows "(state ctx \<noteq> RTC_CONNECTED \<longrightarrow>
            (\<exists>pkt'. whip_write_packet e ctx pkt = Inr (AVERROR EINVAL, pkt', []))) \<and>
         (state ctx = RTC_CONNECTED \<longrightarrow>
            (\<exists>pkt'. whip_write_packet e ctx pkt =
               Inr (av_write_frame e (rtp_ctx (ts ! nat (stream_index pkt))) pkt', pkt',
                    [Av_write_frame (rtp_ctx (ts ! nat (stream_index pkt))) pkt'])
               \<and> pkt_data pkt' = pkt_data pkt))"
  using assms by (simp add: whip_write_packet_def track_at_def Let_def)

theorem whip_write_packet_connected_guard_witness:
  "(\<exists>pkt'. whip_write_packet env0 (session2 RTC_CONNECTING) packet1 = Inr (AVERROR EINVAL, pkt', [])) \<and>
   (\<exists>pkt'. whip_write_packet env0 (session2 RTC_CONNECTED) packet1 =
      Inr (av_write_frame env0 (Some 101) pkt', pkt', [Av_write_frame (Some 101) pkt'])
      \<and> pkt_data pkt' = ''opus'')"
proof -
  have t: "tracks (session2 s) = Some [track_video, track_audio]" for s
    by (simp add: session2_def)
  have i: "0 \<le> stream_index packet1" "stream_index packet1 < int (length [track_video, track_audio])"
    by (simp_all add: packet1_def)
  show ?thesis
    using whip_write_packet_connected_guard [OF t i, of RTC_CONNECTING env0]
      whip_write_packet_connected_guard [OF t i, of RTC_CONNECTED env0]
    by (simp add: session2_def packet1_def track_audio_def)
qed

text \<open>
  C10. For every ingest packet write to a stream of the session, the packet the caller
  gets back has \<open>stream_index = 0\<close> and is otherwise unchanged, whatever the connection
  state: a write rejected with \<open>AVERROR(EINVAL)\<close> has overwritten the field as well. The
  track array is read at the original stream index before the state is looked at: with no
  track array, or an index outside it, the read is undefined in every state, connected or
  not, and no error code is returned.
\<close>

theorem whip_write_packet_overwrites_stream_index:
  "(case track_at ctx (stream_index pkt) of
      Inl f \<Rightarrow> whip_write_packet e ctx pkt = Inl f
    | Inr t \<Rightarrow>
        (\<exists>ret ev. whip_write_packet e ctx pkt = Inr (ret, pkt\<lparr>stream_index := 0\<rparr>, ev)) \<and>
        (if state ctx \<noteq> RTC_CONNECTED
         then whip_write_packet e ctx pkt = Inr (AVERROR EINVAL, pkt\<lparr>stream_index := 0\<rparr>, [])
         else whip_write_packet e ctx pkt =
                Inr (av_write_frame e (rtp_ctx t) (pkt\<lparr>stream_index := 0\<rparr>),
                     pkt\<lparr>stream_index := 0\<rparr>,
                     [Av_write_frame (rtp_ctx t) (pkt\<lparr>stream_index := 0\<rparr>)])))"
  by (simp add: whip_write_packet_def Let_def split: sum.split)

theorem whip_write_packet_overwrites_stream_index_witness:
  "whip_write_packet env0 (session2 RTC_NEW) packet1
     = Inr (AVERROR EINVAL, \<lparr>stream_index = 0, pkt_data = ''opus''\<rparr>, []) \<and>
   packet1 \<noteq> \<lparr>stream_index = 0, pkt_data = ''opus''\<rparr> \<and>
   whip_write_packet env0 (session2 RTC_NEW) \<lparr>stream_index = 2, pkt_data = ''opus''\<rparr>
     = Inl OutOfBounds \<and>
   whip_write_packet env0 ((session2 RTC_NEW)\<lparr>tracks := None\<rparr>) packet1 = Inl NullDeref"
  using whip_write_packet_overwrites_stream_index
      [where ctx = "session2 RTC_NEW" and pkt = packet1 and e = env0]
    whip_write_packet_overwrites_stream_index
      [where ctx = "session2 RTC_NEW" and pkt = "\<lparr>stream_index = 2, pkt_data = ''opus''\<rparr>"
         and e = env0]
    whip_write_packet_overwrites_stream_index
      [where ctx = "(session2 RTC_NEW)\<lparr>tracks := None\<rparr>" and pkt = packet1 and e = env0]
  by (simp add: track_at_def session2_def packet1_def)

subsection \<open>Teardown\<close>

lemma deinit_tracks_in_bounds:
  "i + r \<le> length ts \<Longrightarrow> \<exists>ev. deinit_tracks ts i r = Inr ev"
proof (induction r arbitrary: i)
  case 0
  then show ?case by simp
next
  case (Suc r)
  then have "Suc i + r \<le> length ts" by simp
  from Suc.IH [OF this] obtain ev where "deinit_tracks ts (Suc i) r = Inr ev" ..
  with Suc.prems show ?case by simp
qed

lemma ff_webrtc_deinit_torn_down:
  "ff_webrtc_deinit ctx = Inr (c, ev) \<Longrightarrow>
     tracks c = None \<and> peer_connection c = 0 \<and> resource_location c = None"
  by (auto simp: ff_webrtc_deinit_def split: sum.splits option.splits)

lemma ff_webrtc_deinit_twice:
  "ff_webrtc_deinit ctx = Inr (c, ev) \<Longrightarrow> ff_webrtc_deinit c = Inr (c, [])"
  by (auto simp: ff_webrtc_deinit_def split: sum.splits option.splits)

lemma close_resource_clears:
  "resource_location (fst (snd (ff_webrtc_close_resource e ctx))) = None"
  by (auto simp: ff_webrtc_close_resource_def Let_def split: option.splits sum.splits)

lemma ff_webrtc_deinit_in_bounds:
  assumes "tracks_in_bounds ctx"
  shows "\<exists>c ev. ff_webrtc_deinit ctx = Inr (c, ev)"
proof (cases "tracks ctx")
  case None
  then show ?thesis by (simp add: ff_webrtc_deinit_def)
next
  case (Some ts)
  with assms have "0 + nat (nb_tracks ctx) \<le> length ts"
    by (simp add: tracks_in_bounds_def)
  from deinit_tracks_in_bounds [OF this] obtain ev
    where "deinit_tracks ts 0 (nat (nb_tracks ctx)) = Inr ev" ..
  with Some show ?thesis by (simp add: ff_webrtc_deinit_def)
qed

text \<open>The teardown of the sample session, run.\<close>

lemma ff_webrtc_deinit_session2:
  "ff_webrtc_deinit ((session2 s)\<lparr>resource_location := loc\<rparr>) =
     Inr (session2_torn_down s,
          [Avformat_free_context 0 100, Av_freep_rtp_url_context 0, RtcDeleteTrack 0 1,
           Avformat_free_context 1 101, Av_freep_rtp_url_context 1, RtcDeleteTrack 1 2,
           Av_freep_tracks, RtcDeletePeerConnection 1]
          @ (if loc \<noteq> None then [Av_freep_resource_location] else []))"
  by (simp add: ff_webrtc_deinit_def session2_def session2_torn_down_def release_track_def
      track_video_def track_audio_def eval_nat_numeral)

lemma close_resource_delete_fails:
  "ff_webrtc_close_resource env_delete_fails (session2 s) =
     (- 5, (session2 s)\<lparr>resource_location := None\<rparr>,
      [Ffurl_alloc ''http://whip.example/resource/7'', Ffurl_connect delete_request,
       Ffurl_closep ''http://whip.example/resource/7'', Av_freep_resource_location])"
  by (simp add: ff_webrtc_close_resource_def env_delete_fails_def env0_def session2_def
      delete_request_def)

text \<open>
  C8. Close is idempotent. \<open>ff_webrtc_close_resource\<close> without a resource location returns
  0, changes nothing and calls nothing; after any call of it the resource location is
  unset, whatever the HTTP steps returned; \<open>ff_webrtc_deinit\<close> on the context a first
  \<open>ff_webrtc_deinit\<close> left behind returns normally with an empty trace and the same context;
  and a second \<open>whep_read_close\<close> or \<open>whip_write_trailer\<close> returns 0 with an empty trace.
\<close>

theorem close_is_idempotent:
  "(resource_location ctx = None \<longrightarrow> ff_webrtc_close_resource e ctx = (0, ctx, [])) \<and>
   resource_location (fst (snd (ff_webrtc_close_resource e ctx))) = None \<and>
   (\<forall>c ev. ff_webrtc_deinit ctx = Inr (c, ev) \<longrightarrow> ff_webrtc_deinit c = Inr (c, [])) \<and>
   (\<forall>r c ev. whep_read_close e ctx = Inr (r, c, ev) \<longrightarrow> whep_read_close e c = Inr (0, c, [])) \<and>
   (\<forall>r c ev. whip_write_trailer e ctx = (r, c, ev) \<longrightarrow> whip_write_trailer e c = (0, c, []))"
proof (intro conjI allI impI)
  show "ff_webrtc_close_resource e ctx = (0, ctx, [])" if "resource_location ctx = None"
    using that by (simp add: ff_webrtc_close_resource_def)
  show "resource_location (fst (snd (ff_webrtc_close_resource e ctx))) = None"
    by (rule close_resource_clears)
  show "ff_webrtc_deinit c = Inr (c, [])" if "ff_webrtc_deinit ctx = Inr (c, ev)" for c ev
    using that by (rule ff_webrtc_deinit_twice)
  show "whep_read_close e c = Inr (0, c, [])" if "whep_read_close e ctx = Inr (r, c, ev)"
    for r c ev
  proof -
    from that obtain c1 ev1 ev2 where "ff_webrtc_deinit c1 = Inr (c, ev2)"
      by (auto simp: whep_read_close_def split: prod.splits sum.splits)
    then have "resource_location c = None" "ff_webrtc_deinit c = Inr (c, [])"
      using ff_webrtc_deinit_torn_down ff_webrtc_deinit_twice by blast+
    then show ?thesis
      by (simp add: whep_read_close_def ff_webrtc_close_resource_def)
  qed
  show "whip_write_trailer e c = (0, c, [])" if "whip_write_trailer e ctx = (r, c, ev)"
    for r c ev
  proof -
    from that have "resource_location c = None"
      using close_resource_clears [of e ctx] by (simp add: whip_write_trailer_def)
    then show ?thesis
      by (simp add: whip_write_trailer_def ff_webrtc_close_resource_def)
  qed
qed

theorem close_is_idempotent_witness:
  "ff_webrtc_deinit (session2 RTC_CONNECTED) =
     Inr (session2_torn_down RTC_CONNECTED,
          [Avformat_free_context 0 100, Av_freep_rtp_url_context 0, RtcDeleteTrack 0 1,
           Avformat_free_context 1 101, Av_freep_rtp_url_context 1, RtcDeleteTrack 1 2,
           Av_freep_tracks, RtcDeletePeerConnection 1, Av_freep_resource_location]) \<and>
   ff_webrtc_deinit (session2_torn_down RTC_CONNECTED)
     = Inr (session2_torn_down RTC_CONNECTED, []) \<and>
   ff_webrtc_close_resource env0 (session2_torn_down RTC_CONNECTED)
     = (0, session2_torn_down RTC_CONNECTED, [])"
proof -
  have first: "ff_webrtc_deinit (session2 RTC_CONNECTED) =
     Inr (session2_torn_down RTC_CONNECTED,
          [Avformat_free_context 0 100, Av_freep_rtp_url_context 0, RtcDeleteTrack 0 1,
           Avformat_free_context 1 101, Av_freep_rtp_url_context 1, RtcDeleteTrack 1 2,
           Av_freep_tracks, RtcDeletePeerConnection 1, Av_freep_resource_location])"
    using ff_webrtc_deinit_session2
        [where s = RTC_CONNECTED and loc = "Some ''http://whip.example/resource/7''"]
    by (simp add: session2_def)
  have unset: "resource_location (session2_torn_down RTC_CONNECTED) = None"
    by (simp add: session2_torn_down_def)
  show ?thesis
    using close_is_idempotent [of "session2 RTC_CONNECTED" env0] first
      close_is_idempotent [of "session2_torn_down RTC_CONNECTED" env0] unset
    by simp
qed

text \<open>
  C3, as the code has it. For every session whose track count fits its track array, in
  either role: close returns what the remote deletion returned, so a failed deletion makes
  \<open>whep_read_close\<close> and \<open>whip_write_trailer\<close> return its negative code. In the egress role
  the failed deletion does not stop the local release: \<open>whep_read_close\<close> always goes on
  to \<open>ff_webrtc_deinit\<close>, after which the track array, the peer connection and the resource
  location are all unset. In the ingest role \<open>whip_write_trailer\<close> is the deletion alone.
\<close>

theorem close_returns_delete_result:
  assumes "tracks_in_bounds ctx"
  shows "whip_write_trailer e ctx = ff_webrtc_close_resource e ctx \<and>
    (\<exists>c ev. ff_webrtc_deinit (fst (snd (ff_webrtc_close_resource e ctx))) = Inr (c, ev) \<and>
       whep_read_close e ctx =
         Inr (fst (ff_webrtc_close_resource e ctx), c,
              snd (snd (ff_webrtc_close_resource e ctx)) @ ev) \<and>
       tracks c = None \<and> peer_connection c = 0 \<and> resource_location c = None)"
proof -
  obtain r c1 ev1 where close: "ff_webrtc_close_resource e ctx = (r, c1, ev1)"
    by (metis prod_cases3)
  have "tracks c1 = tracks ctx \<and> nb_tracks c1 = nb_tracks ctx"
    using close
    by (auto simp: ff_webrtc_close_resource_def Let_def split: option.splits if_splits sum.splits)
  with assms have "tracks_in_bounds c1"
    by (simp add: tracks_in_bounds_def split: option.splits)
  from ff_webrtc_deinit_in_bounds [OF this] obtain c ev
    where deinit: "ff_webrtc_deinit c1 = Inr (c, ev)" by blast
  from ff_webrtc_deinit_torn_down [OF deinit] close deinit show ?thesis
    by (simp add: whep_read_close_def whip_write_trailer_def)
qed

theorem close_returns_delete_result_witness:
  "tracks_in_bounds (session2 RTC_CONNECTED) \<and>
   fst (ff_webrtc_close_resource env_delete_fails (session2 RTC_CONNECTED)) = - 5 \<and>
   (\<exists>c ev. whep_read_close env_delete_fails (session2 RTC_CONNECTED) =
       Inr (- 5, c, snd (snd (ff_webrtc_close_resource env_delete_fails (session2 RTC_CONNECTED))) @ ev)
     \<and> tracks c = None \<and> peer_connection c = 0 \<and> resource_location c = None)"
proof -
  have b: "tracks_in_bounds (session2 RTC_CONNECTED)"
    by (simp add: tracks_in_bounds_def session2_def)
  have r: "fst (ff_webrtc_close_resource env_delete_fails (session2 RTC_CONNECTED)) = - 5"
    by (simp add: close_resource_delete_fails)
  show ?thesis
    using close_returns_delete_result [OF b, of env_delete_fails] b r by auto
qed

text \<open>The claim as written fails: with a server that refuses the DELETE, the egress close
  tears everything down and returns the error \<open>-5\<close>, and the ingest trailer returns it
  too.\<close>

theorem close_reports_delete_failure_counterexample:
  "whep_read_close env_delete_fails (session2 RTC_CONNECTED) =
     Inr (- 5, session2_torn_down RTC_CONNECTED,
          [Ffurl_alloc ''http://whip.example/resource/7'', Ffurl_connect delete_request,
           Ffurl_closep ''http://whip.example/resource/7'', Av_freep_resource_location,
           Avformat_free_context 0 100, Av_freep_rtp_url_context 0, RtcDeleteTrack 0 1,
           Avformat_free_context 1 101, Av_freep_rtp_url_context 1, RtcDeleteTrack 1 2,
           Av_freep_tracks, RtcDeletePeerConnection 1]) \<and>
   fst (whip_write_trailer env_delete_fails (session2 RTC_CONNECTED)) = - 5"
  using ff_webrtc_deinit_session2 [where s = RTC_CONNECTED and loc = None]
  by (simp add: whep_read_close_def whip_write_trailer_def close_resource_delete_fails)

subsection \<open>Creating the resource\<close>

lemma c_string_prefix:
  assumes "c_string n bytes = Inr s"
  shows "s = takeWhile (\<lambda>c. c \<noteq> CHR 0x00) (take n bytes)"
proof (cases "CHR 0x00 \<in> set (take n bytes)")
  case True
  with assms show ?thesis by (simp add: c_string_def Let_def)
next
  case False
  then have "\<forall>x\<in>set (take n bytes). x \<noteq> CHR 0x00" by blast
  then have tw: "takeWhile (\<lambda>c. c \<noteq> CHR 0x00) (take n bytes) = take n bytes"
    by (simp only: takeWhile_eq_all_conv)
  from assms False have s: "s = take n bytes"
    by (simp add: c_string_def Let_def split: if_splits)
  show ?thesis by (simp only: s tw)
qed


text \<open>
  C4, as the code has it. In the create-resource exchange the response is read with the
  buffer size \<open>SDP_MAX_SIZE\<close> as the limit, and the size of the body is compared with
  nothing. Whenever the steps up to the read succeed and the read returns a count that is
  not negative, the C string in the buffer (the bytes the read stored, no more than
  \<open>SDP_MAX_SIZE\<close> of them, up to the first NUL) is applied as the remote description, and
  the operation fails only if the engine rejects that text or closing the HTTP context
  fails. Nothing here depends on how long the body is.
\<close>

theorem create_resource_answer_not_size_checked:
  assumes "rtcSetLocalDescription e (peer_connection ctx) ''offer'' = RTC_ERR_SUCCESS"
    and "0 \<le> fst (rtcGetLocalDescription e (peer_connection ctx) (SDP_MAX_SIZE e))"
    and "c_string (SDP_MAX_SIZE e)
           (snd (rtcGetLocalDescription e (peer_connection ctx) (SDP_MAX_SIZE e))) = Inr offer"
    and "avctx ctx = Some u" and "0 \<le> ffurl_alloc e u"
    and "post_headers e (bearer_token ctx) = Some h"
    and "req = \<lparr>req_url = u, req_method = ''POST'', req_headers = Some h,
                req_post_data = offer\<rparr>"
    and "0 \<le> ffurl_connect e req"
    and "ffurl_read_complete e req (SDP_MAX_SIZE e) = (r, body)" and "0 \<le> r"
    and "c_string (SDP_MAX_SIZE e) body = Inr sdp"
  shows "sdp = takeWhile (\<lambda>c. c \<noteq> CHR 0x00) (take (SDP_MAX_SIZE e) body) \<and>
    (\<exists>c. ff_webrtc_create_resource e ctx =
       Inr (if rtcSetRemoteDescription e (peer_connection ctx) sdp ''answer'' < 0
            then rtcSetRemoteDescription e (peer_connection ctx) sdp ''answer''
            else if ffurl_closep e u < 0 then ffurl_closep e u else 0,
            c,
            [RtcSetLocalDescription (peer_connection ctx) ''offer'', Ffurl_alloc u,
             Ffurl_connect req, Ffurl_read_complete (SDP_MAX_SIZE e),
             RtcSetRemoteDescription (peer_connection ctx) sdp ''answer'', Ffurl_closep u]))"
proof
  show "sdp = takeWhile (\<lambda>c. c \<noteq> CHR 0x00) (take (SDP_MAX_SIZE e) body)"
    using assms(11) by (rule c_string_prefix)
  show "\<exists>c. ff_webrtc_create_resource e ctx =
       Inr (if rtcSetRemoteDescription e (peer_connection ctx) sdp ''answer'' < 0
            then rtcSetRemoteDescription e (peer_connection ctx) sdp ''answer''
            else if ffurl_closep e u < 0 then ffurl_closep e u else 0,
            c,
            [RtcSetLocalDescription (peer_connection ctx) ''offer'', Ffurl_alloc u,
             Ffurl_connect req, Ffurl_read_complete (SDP_MAX_SIZE e),
             RtcSetRemoteDescription (peer_connection ctx) sdp ''answer'', Ffurl_closep u])"
    using assms by (simp add: ff_webrtc_create_resource_def Let_def)
qed


lemma headers_secret:
  "post_headers env0 (Some ''secret'') =
     Some (''Content-type: application/sdp'' @ CRLF @ ''Authorization: Bearer secret'' @ CRLF)"
  by (simp add: post_headers_def av_asprintf_def env0_def)

lemma c_string_offer: "c_string 16384 ''offer'' = Inr ''offer''"
  by (simp add: c_string_def)

lemma c_string_answer: "c_string 16384 ''answer'' = Inr ''answer''"
  by (simp add: c_string_def)

theorem create_resource_answer_not_size_checked_witness:
  "\<exists>c. ff_webrtc_create_resource env0 session_new =
     Inr (0, c,
          [RtcSetLocalDescription 1 ''offer'', Ffurl_alloc ''http://whip.example/in'',
           Ffurl_connect \<lparr>req_url = ''http://whip.example/in'', req_method = ''POST'',
             req_headers = Some (''Content-type: application/sdp'' @ CRLF
                                 @ ''Authorization: Bearer secret'' @ CRLF),
             req_post_data = ''offer''\<rparr>,
           Ffurl_read_complete 16384, RtcSetRemoteDescription 1 ''answer'' ''answer'',
           Ffurl_closep ''http://whip.example/in''])"
proof -
  have env: "SDP_MAX_SIZE env0 = 16384"
    "rtcSetLocalDescription env0 = (\<lambda>pc ty. 0)"
    "rtcGetLocalDescription env0 = (\<lambda>pc n. (6, ''offer''))"
    "rtcSetRemoteDescription env0 = (\<lambda>pc sdp ty. 0)"
    "ffurl_alloc env0 = (\<lambda>u. 0)" "ffurl_connect env0 = (\<lambda>r. 0)"
    "ffurl_closep env0 = (\<lambda>u. 0)"
    "ffurl_read_complete env0 = (\<lambda>r n. (int (length (take n ''answer'')), take n ''answer''))"
    by (simp_all add: env0_def)
  have s: "peer_connection session_new = 1" "avctx session_new = Some ''http://whip.example/in''"
    "bearer_token session_new = Some ''secret''"
    by (simp_all add: session_new_def)
  have "''answer'' = takeWhile (\<lambda>c. c \<noteq> CHR 0x00) (take (SDP_MAX_SIZE env0) ''answer'') \<and>
    (\<exists>c. ff_webrtc_create_resource env0 session_new =
       Inr (if rtcSetRemoteDescription env0 (peer_connection session_new) ''answer'' ''answer'' < 0
            then rtcSetRemoteDescription env0 (peer_connection session_new) ''answer'' ''answer''
            else if ffurl_closep env0 ''http://whip.example/in'' < 0
                 then ffurl_closep env0 ''http://whip.example/in'' else 0,
            c,
            [RtcSetLocalDescription (peer_connection session_new) ''offer'',
             Ffurl_alloc ''http://whip.example/in'',
             Ffurl_connect \<lparr>req_url = ''http://whip.example/in'', req_method = ''POST'',
               req_headers = Some (''Content-type: application/sdp'' @ CRLF
                                   @ ''Authorization: Bearer secret'' @ CRLF),
               req_post_data = ''offer''\<rparr>,
             Ffurl_read_complete (SDP_MAX_SIZE env0),
             RtcSetRemoteDescription (peer_connection session_new) ''answer'' ''answer'',
             Ffurl_closep ''http://whip.example/in'']))"
    by (rule create_resource_answer_not_size_checked [where r = 6])
      (simp_all add: env s RTC_ERR_SUCCESS_def c_string_offer c_string_answer headers_secret)
  then show ?thesis by (simp add: env s)
qed

text \<open>The claim as written fails: the server answers with 16388 bytes, more than the
  16384 of the buffer; the read stores the first 16384, the text up to the NUL at offset
  16383 is applied as the remote description, and the operation returns 0.\<close>

lemma oversized_answer_length: "length oversized_answer = 16388"
  by (simp add: oversized_answer_def)

lemma c_string_oversized:
  "c_string 16384 (take 16384 oversized_answer) = Inr (replicate 16383 (CHR ''a''))"
  by (simp add: c_string_def oversized_answer_def Let_def takeWhile_tail)

theorem oversized_answer_is_applied_counterexample:
  "int (SDP_MAX_SIZE (env_answer oversized_answer)) < int (length oversized_answer) \<and>
   ff_webrtc_create_resource (env_answer oversized_answer) session_new =
     Inr (0, session_new\<lparr>resource_location := Some ''http://whip.example/resource/7''\<rparr>,
          [RtcSetLocalDescription 1 ''offer'', Ffurl_alloc ''http://whip.example/in'',
           Ffurl_connect \<lparr>req_url = ''http://whip.example/in'', req_method = ''POST'',
             req_headers = Some (''Content-type: application/sdp'' @ CRLF
                                 @ ''Authorization: Bearer secret'' @ CRLF),
             req_post_data = ''offer''\<rparr>,
           Ffurl_read_complete 16384,
           RtcSetRemoteDescription 1 (replicate 16383 (CHR ''a'')) ''answer'',
           Ffurl_closep ''http://whip.example/in''])"
proof -
  have env: "SDP_MAX_SIZE (env_answer b) = 16384"
    "rtcSetLocalDescription (env_answer b) = (\<lambda>pc ty. 0)"
    "rtcGetLocalDescription (env_answer b) = (\<lambda>pc n. (6, ''offer''))"
    "rtcSetRemoteDescription (env_answer b) = (\<lambda>pc sdp ty. 0)"
    "ffurl_alloc (env_answer b) = (\<lambda>u. 0)" "ffurl_connect (env_answer b) = (\<lambda>r. 0)"
    "ffurl_closep (env_answer b) = (\<lambda>u. 0)"
    "ffurl_read_complete (env_answer b) = (\<lambda>r. read_up_to b)"
    "av_opt_get_new_location (env_answer b) = (\<lambda>r. Some ''http://whip.example/resource/7'')"
    for b
    by (simp_all add: env_answer_def env0_def)
  have hd: "post_headers (env_answer b) tok = post_headers env0 tok" for b tok
    by (simp add: env_answer_def post_headers_def av_asprintf_def split: option.splits)
  have rd: "read_up_to oversized_answer 16384 = (16384, take 16384 oversized_answer)"
    by (simp add: read_up_to_def oversized_answer_def)
  show ?thesis
    unfolding ff_webrtc_create_resource_def Let_def
    by (simp add: env hd headers_secret session_new_def RTC_ERR_SUCCESS_def rd
        c_string_offer c_string_oversized oversized_answer_length)
qed

subsection \<open>Waiting for the connection\<close>

lemma wait_for_connection_pending:
  assumes "\<forall>j<k. fst (observe e (i + j)) \<notin> {RTC_CONNECTED, RTC_FAILED, RTC_CLOSED}
             \<and> snd (observe e (i + j)) \<le> deadline"
  shows "wait_for_connection e deadline i = wait_for_connection e deadline (i + k)"
  using assms
proof (induction k arbitrary: i)
  case 0
  then show ?case by simp
next
  case (Suc k)
  from Suc.prems have here: "fst (observe e i) \<notin> {RTC_CONNECTED, RTC_FAILED, RTC_CLOSED}"
      "snd (observe e i) \<le> deadline"
    by (metis add.right_neutral zero_less_Suc)+
  have rest: "\<forall>j<k. fst (observe e (Suc i + j)) \<notin> {RTC_CONNECTED, RTC_FAILED, RTC_CLOSED}
             \<and> snd (observe e (Suc i + j)) \<le> deadline"
    using Suc.prems by (metis Suc_less_eq add_Suc_shift)
  have "wait_for_connection e deadline i = wait_for_connection e deadline (Suc i)"
    using here by (subst wait_for_connection.simps) (auto split: prod.splits)
  also have "\<dots> = wait_for_connection e deadline (Suc i + k)"
    by (rule Suc.IH [OF rest])
  finally show ?case by simp
qed

lemma wait_for_connection_decides:
  assumes "fst (observe e k) \<in> {RTC_CONNECTED, RTC_FAILED, RTC_CLOSED} \<or> snd (observe e k) > deadline"
  shows "wait_for_connection e deadline k =
    Some (if fst (observe e k) = RTC_CONNECTED then 0 else AVERROR_EXTERNAL, fst (observe e k), k)"
  using assms by (subst wait_for_connection.simps) (auto split: prod.splits)

lemma wait_for_connection_first:
  assumes "\<forall>j<k. fst (observe e j) \<notin> {RTC_CONNECTED, RTC_FAILED, RTC_CLOSED}
             \<and> snd (observe e j) \<le> deadline"
    and "fst (observe e k) \<in> {RTC_CONNECTED, RTC_FAILED, RTC_CLOSED} \<or> snd (observe e k) > deadline"
  shows "wait_for_connection e deadline 0 =
    Some (if fst (observe e k) = RTC_CONNECTED then 0 else AVERROR_EXTERNAL, fst (observe e k), k)"
  using wait_for_connection_pending [of k e 0 deadline] wait_for_connection_decides [OF assms(2)]
    assms(1) by simp

lemma AVERROR_EXTERNAL_neg: "AVERROR_EXTERNAL < 0"
  by (simp add: AVERROR_EXTERNAL_def FFERRTAG_def)




subsection \<open>The egress open\<close>

lemma AVERROR_ENOMEM_neg: "AVERROR ENOMEM < 0"
  by (simp add: AVERROR_def ENOMEM_def)

lemma AVERROR_EINVAL_neg: "AVERROR EINVAL < 0"
  by (simp add: AVERROR_def EINVAL_def)

lemma create_resource_frame:
  "ff_webrtc_create_resource e ctx = Inr (r, c, ev) \<Longrightarrow>
     tracks c = tracks ctx \<and> nb_tracks c = nb_tracks ctx \<and> peer_connection c = peer_connection ctx
     \<and> (0 \<le> r \<longrightarrow> r = 0)"
  using AVERROR_EXTERNAL_neg AVERROR_ENOMEM_neg
  unfolding ff_webrtc_create_resource_def Let_def
  by (auto split: option.splits if_splits sum.splits)

lemma create_resource_no_add_track:
  "ff_webrtc_create_resource e ctx = Inr (r, c, ev) \<Longrightarrow> filter is_add_track ev = []"
  unfolding ff_webrtc_create_resource_def Let_def
  by (auto split: option.splits if_splits sum.splits)

lemma whep_add_tracks_fail_neg:
  "whep_add_tracks e a ctx0 = Goto_fail r s \<Longrightarrow> r < 0"
  unfolding whep_add_tracks_def Let_def ff_webrtc_generate_media_stream_id_def
    ff_webrtc_init_connection_def
  by (auto simp: AVERROR_EXTERNAL_neg AVERROR_ENOMEM_neg split: prod.splits if_splits)

lemma whep_add_tracks_continue:
  assumes "whep_add_tracks e a ctx0 = Continue (c, sts, ev)"
  shows "\<exists>t0 t1. sts = [] \<and> nb_tracks c = 2 \<and> tracks c = Some [t0, t1]
    \<and> track_id t0 = rtcAddTrackEx e (peer_connection c)
          (whep_video_track_init e (snd (ff_webrtc_generate_media_stream_id e)))
    \<and> track_id t1 = rtcAddTrackEx e (peer_connection c)
          (whep_audio_track_init e (snd (ff_webrtc_generate_media_stream_id e)))
    \<and> filter is_add_track ev =
         [RtcAddTrackEx (peer_connection c)
            (whep_video_track_init e (snd (ff_webrtc_generate_media_stream_id e))),
          RtcAddTrackEx (peer_connection c)
            (whep_audio_track_init e (snd (ff_webrtc_generate_media_stream_id e)))]"
  using assms
  unfolding whep_add_tracks_def Let_def ff_webrtc_init_connection_def update_track_def
  by (auto split: prod.splits if_splits)


lemma create_resource_fail_neg:
  "ff_webrtc_create_resource e ctx = Inr (r, c, ev) \<Longrightarrow> r \<noteq> 0 \<Longrightarrow> r < 0"
  using create_resource_frame [of e ctx r c ev] by auto

lemma whep_connect_fail_neg:
  "whep_connect e s = Some (Goto_fail r s') \<Longrightarrow> r < 0"
  unfolding whep_connect_def Let_def
  by (auto split: prod.splits sum.splits if_splits option.splits)

lemma filter_add_track_sleeps [simp]: "filter is_add_track (replicate k (Av_usleep d)) = []"
  by (induction k) auto

lemma whep_connect_continue:
  assumes "whep_connect e (c, sts, ev) = Some (Continue (c', sts', ev'))"
  shows "tracks c' = tracks c \<and> nb_tracks c' = nb_tracks c \<and> peer_connection c' = peer_connection c
    \<and> sts' = sts \<and> filter is_add_track ev' = filter is_add_track ev"
proof -
  from assms obtain r c1 ev1 where cr: "ff_webrtc_create_resource e c = Inr (r, c1, ev1)"
    by (auto simp: whep_connect_def split: sum.splits)
  with assms obtain st k where
    "c' = c1\<lparr>state := st\<rparr>" "sts' = sts" "ev' = ev @ ev1 @ replicate k (Av_usleep 1000)"
    by (auto simp: whep_connect_def Let_def split: if_splits option.splits)
  with create_resource_frame [OF cr] create_resource_no_add_track [OF cr] show ?thesis
    by simp
qed

lemma init_urlcontext_frame:
  assumes "ff_webrtc_init_urlcontext e c i = Inr (r, c')" and "tracks c = Some ts"
  shows "i < length ts \<and> nb_tracks c' = nb_tracks c \<and> peer_connection c' = peer_connection c
    \<and> (\<exists>u. tracks c' = Some (ts[i := (ts ! i)\<lparr>rtp_url_context := u\<rparr>]))
    \<and> (r \<noteq> 0 \<longrightarrow> r < 0)"
  using assms AVERROR_ENOMEM_neg
  by (auto simp: ff_webrtc_init_urlcontext_def split: if_splits)

lemma whep_open_track_fail_neg:
  assumes "av_find_input_format_sdp e" and "whep_open_track e i s = Goto_fail r s'"
  shows "r < 0"
proof -
  obtain c sts ev where s: "s = (c, sts, ev)" by (metis prod_cases3)
  from assms(2) obtain t where t: "track_at c (int i) = Inr t"
    by (auto simp: whep_open_track_def s split: sum.splits)
  then obtain ts where ts: "tracks c = Some ts"
    by (auto simp: track_at_def split: option.splits)
  have upd: "tracks (update_track c i f) = Some (ts[i := f (ts ! i)])" for f
    by (simp add: update_track_def ts)
  show ?thesis
    using assms t AVERROR_ENOMEM_neg
    unfolding whep_open_track_def s Let_def
    by (auto split: prod.splits sum.splits if_splits
        dest!: init_urlcontext_frame [OF _ upd])
qed

lemma whep_open_track_continue:
  assumes "whep_open_track e i (c, sts, ev) = Continue (c', sts', ev')"
  shows "\<exists>ts ts'. tracks c = Some ts \<and> i < length ts \<and> tracks c' = Some ts'
    \<and> length ts' = length ts \<and> (\<forall>j. j \<noteq> i \<longrightarrow> ts' ! j = ts ! j)
    \<and> rtp_ctx (ts' ! i) = Some (avformat_alloc_context e i)
    \<and> track_id (ts' ! i) = track_id (ts ! i)
    \<and> nb_tracks c' = nb_tracks c \<and> peer_connection c' = peer_connection c
    \<and> sts' = sts @ [rtp_ctx_stream0 e (avformat_alloc_context e i)]
    \<and> filter is_add_track ev' = filter is_add_track ev"
proof -
  from assms obtain t where t: "track_at c (int i) = Inr t"
    by (auto simp: whep_open_track_def split: sum.splits)
  then obtain ts where ts: "tracks c = Some ts" and i: "i < length ts"
    by (auto simp: track_at_def split: option.splits if_splits)
  define c1 where "c1 = update_track c i (\<lambda>t. t\<lparr>rtp_ctx := Some (avformat_alloc_context e i)\<rparr>)"
  have upd: "tracks c1 = Some (ts[i := (ts ! i)\<lparr>rtp_ctx := Some (avformat_alloc_context e i)\<rparr>])"
    by (simp add: c1_def update_track_def ts)
  have fr: "nb_tracks c1 = nb_tracks c" "peer_connection c1 = peer_connection c"
    by (simp_all add: c1_def update_track_def)
  from assms t obtain r2 where
    u: "ff_webrtc_init_urlcontext e c1 i = Inr (r2, c')" and
    rest: "sts' = sts @ [rtp_ctx_stream0 e (avformat_alloc_context e i)]"
      "filter is_add_track ev' = filter is_add_track ev"
    unfolding whep_open_track_def Let_def c1_def
    by (auto split: prod.splits sum.splits if_splits)
  from init_urlcontext_frame [OF u upd] fr i rest ts show ?thesis
    by auto
qed


lemma whep_open_tracks_fail_neg:
  assumes "av_find_input_format_sdp e"
  shows "whep_open_tracks e i r s = Goto_fail x s' \<Longrightarrow> x < 0"
proof (induction r arbitrary: i s)
  case 0
  then show ?case by simp
next
  case (Suc r)
  show ?case
  proof (cases "whep_open_track e i s")
    case (Crash f)
    with Suc.prems show ?thesis by (simp add: then_step_def)
  next
    case (Goto_fail y t)
    with Suc.prems have "x = y" by (simp add: then_step_def)
    with whep_open_track_fail_neg [OF assms Goto_fail] show ?thesis by simp
  next
    case (Continue t)
    with Suc.prems have "whep_open_tracks e (Suc i) r t = Goto_fail x s'"
      by (simp add: then_step_def)
    then show ?thesis by (rule Suc.IH)
  qed
qed

lemma whep_open_two_tracks:
  assumes "whep_open_tracks e 0 (Suc (Suc 0)) (c, sts, ev) = Continue (c', sts', ev')"
    and "tracks c = Some [t0, t1]"
  shows "\<exists>u0 u1. tracks c' = Some [u0, u1]
    \<and> rtp_ctx u0 = Some (avformat_alloc_context e 0) \<and> track_id u0 = track_id t0
    \<and> rtp_ctx u1 = Some (avformat_alloc_context e 1) \<and> track_id u1 = track_id t1
    \<and> peer_connection c' = peer_connection c
    \<and> sts' = sts @ [rtp_ctx_stream0 e (avformat_alloc_context e 0),
                    rtp_ctx_stream0 e (avformat_alloc_context e 1)]
    \<and> filter is_add_track ev' = filter is_add_track ev"
proof -
  from assms(1) obtain c1 sts1 ev1 where
    one: "whep_open_track e 0 (c, sts, ev) = Continue (c1, sts1, ev1)" and
    two: "whep_open_track e (Suc 0) (c1, sts1, ev1) = Continue (c', sts', ev')"
    by (auto simp: then_step_def split: step.splits)
  from whep_open_track_continue [OF one] assms(2) obtain ts1 where
    ts1: "tracks c1 = Some ts1" "length ts1 = 2" "ts1 ! 1 = t1"
      "rtp_ctx (ts1 ! 0) = Some (avformat_alloc_context e 0)" "track_id (ts1 ! 0) = track_id t0"
      "peer_connection c1 = peer_connection c"
      "sts1 = sts @ [rtp_ctx_stream0 e (avformat_alloc_context e 0)]"
      "filter is_add_track ev1 = filter is_add_track ev"
    by fastforce
  from whep_open_track_continue [OF two] ts1 obtain ts2 where
    ts2: "tracks c' = Some ts2" "length ts2 = 2" "ts2 ! 0 = ts1 ! 0"
      "rtp_ctx (ts2 ! 1) = Some (avformat_alloc_context e 1)" "track_id (ts2 ! 1) = track_id t1"
      "peer_connection c' = peer_connection c"
      "sts' = sts @ [rtp_ctx_stream0 e (avformat_alloc_context e 0),
                     rtp_ctx_stream0 e (avformat_alloc_context e 1)]"
      "filter is_add_track ev' = filter is_add_track ev"
    by fastforce
  from ts2(2) obtain u0 u1 where "ts2 = [u0, u1]"
    by (metis (no_types, opaque_lifting) One_nat_def Suc_1 Suc_length_conv length_0_conv)
  with ts1 ts2 show ?thesis by auto
qed

text \<open>
  When the SDP demuxer is found, an egress open that does not return a negative value
  returns 0 and leaves exactly two streams in the caller's context: stream 0 carries the
  parameters of the first stream of the RTP context opened for track 0, stream 1 those of
  track 1. Track 0 is the track added with the video defaults, track 1 the one added with
  the audio defaults; these two \<open>rtcAddTrackEx\<close> calls, video first, are the only ones in the
  trace. Both are receive-only; video is H264 with payload type 96, audio is Opus with
  payload type 97, each with its fixed profile string. None of this depends on the rest of
  the environment, and so not on what the remote answer holds.
\<close>

lemma whep_read_header_streams:
  assumes "whep_read_header e a ctx0 = Some (Inr (ret, c, sts, ev))"
    and "0 \<le> ret" and "av_find_input_format_sdp e"
  shows "ret = 0 \<and>
    sts = [rtp_ctx_stream0 e (avformat_alloc_context e 0),
           rtp_ctx_stream0 e (avformat_alloc_context e 1)] \<and>
    (\<exists>t0 t1 video audio.
       video = whep_video_track_init e (snd (ff_webrtc_generate_media_stream_id e)) \<and>
       audio = whep_audio_track_init e (snd (ff_webrtc_generate_media_stream_id e)) \<and>
       tracks c = Some [t0, t1] \<and>
       rtp_ctx t0 = Some (avformat_alloc_context e 0) \<and>
       rtp_ctx t1 = Some (avformat_alloc_context e 1) \<and>
       track_id t0 = rtcAddTrackEx e (peer_connection c) video \<and>
       track_id t1 = rtcAddTrackEx e (peer_connection c) audio \<and>
       filter is_add_track ev =
         [RtcAddTrackEx (peer_connection c) video, RtcAddTrackEx (peer_connection c) audio] \<and>
       direction video = RTC_DIRECTION_RECVONLY \<and> codec video = RTC_CODEC_H264 \<and>
       payloadType video = 96 \<and> mid video = Some ''0'' \<and>
       profile video =
         Some ''profile-level-id=42e01f;packetization-mode=1;level-asymmetry-allowed=1'' \<and>
       direction audio = RTC_DIRECTION_RECVONLY \<and> codec audio = RTC_CODEC_OPUS \<and>
       payloadType audio = 97 \<and> mid audio = Some ''1'' \<and>
       profile audio =
         Some ''minptime=10;maxaveragebitrate=96000;stereo=1;sprop-stereo=1;useinbandfec=1'')"
proof -
  have no_fail: False if "ff_webrtc_deinit c0 = Inr (c, evd)" "x < 0" "ret = x" for c0 evd x
    using that assms(2) by simp
  from assms(1,2) obtain s0 where add: "whep_add_tracks e a ctx0 = Continue s0"
    using whep_add_tracks_fail_neg [of e a ctx0]
    by (fastforce simp: whep_read_header_def split: step.splits sum.splits prod.splits)
  obtain c0 sts0 ev0 where s0: "s0 = (c0, sts0, ev0)" by (metis prod_cases3)
  from assms(1,2) add obtain c1 sts1 ev1 where
    conn: "whep_connect e s0 = Some (Continue (c1, sts1, ev1))"
    using whep_connect_fail_neg [of e s0]
    by (fastforce simp: whep_read_header_def split: step.splits sum.splits prod.splits option.splits)
  from assms(1,2) add conn have
    opened: "whep_open_tracks e 0 (nat (nb_tracks c1)) (c1, sts1, ev1) = Continue (c, sts, ev)"
      and ret: "ret = 0"
    using whep_open_tracks_fail_neg [OF assms(3), of 0 "nat (nb_tracks c1)" "(c1, sts1, ev1)"]
    by (fastforce simp: whep_read_header_def split: step.splits sum.splits prod.splits)+
  from whep_add_tracks_continue [OF add [unfolded s0]] obtain t0 t1 where
    a: "sts0 = []" "nb_tracks c0 = 2" "tracks c0 = Some [t0, t1]"
      "track_id t0 = rtcAddTrackEx e (peer_connection c0)
          (whep_video_track_init e (snd (ff_webrtc_generate_media_stream_id e)))"
      "track_id t1 = rtcAddTrackEx e (peer_connection c0)
          (whep_audio_track_init e (snd (ff_webrtc_generate_media_stream_id e)))"
      "filter is_add_track ev0 =
         [RtcAddTrackEx (peer_connection c0)
            (whep_video_track_init e (snd (ff_webrtc_generate_media_stream_id e))),
          RtcAddTrackEx (peer_connection c0)
            (whep_audio_track_init e (snd (ff_webrtc_generate_media_stream_id e)))]"
    by blast
  from whep_connect_continue [OF conn [unfolded s0]] a have
    b: "nb_tracks c1 = 2" "tracks c1 = Some [t0, t1]" "peer_connection c1 = peer_connection c0"
      "sts1 = []" "filter is_add_track ev1 = filter is_add_track ev0"
    by simp_all
  from opened b(1) have "whep_open_tracks e 0 (Suc (Suc 0)) (c1, sts1, ev1) = Continue (c, sts, ev)"
    by (simp add: numeral_2_eq_2)
  from whep_open_two_tracks [OF this b(2)] a b ret show ?thesis
    by (auto simp: whep_video_track_init_def whep_audio_track_init_def)
qed

text \<open>The sample open, run.\<close>

lemma env0_fields:
  "rtcCreatePeerConnection env0 = 1"
  "rtcSetStateChangeCallback env0 = (\<lambda>pc. 0)"
  "rtcAddTrackEx env0 = (\<lambda>pc init. if codec init = RTC_CODEC_OPUS then 3 else 2)"
  "rtcSetLocalDescription env0 = (\<lambda>pc ty. 0)"
  "rtcGetLocalDescription env0 = (\<lambda>pc n. (6, ''offer''))"
  "rtcSetRemoteDescription env0 = (\<lambda>pc sdp ty. 0)"
  "rtcGetTrackDescription env0 = (\<lambda>tr n. if tr = 2 then (8, ''m=video'') else (8, ''m=audio''))"
  "ffurl_alloc env0 = (\<lambda>u. 0)"
  "ffurl_connect env0 = (\<lambda>r. 0)"
  "ffurl_read_complete env0 = (\<lambda>r n. (int (length (take n ''answer'')), take n ''answer''))"
  "ffurl_closep env0 = (\<lambda>u. 0)"
  "av_opt_get_new_location env0 = (\<lambda>r. Some ''http://whip.example/resource/7'')"
  "av_malloc_ok env0 = (\<lambda>a. True)"
  "av_random_bytes env0 = (0, ''0123456789abcdef'')"
  "av_uuid_unparse env0 = (\<lambda>b. ''00112233-4455-6677-8899-aabbccddeeff'')"
  "av_gettime_relative env0 = 5000"
  "observe env0 = (\<lambda>k. (if k < 3 then RTC_CONNECTING else RTC_CONNECTED, 6000 + 1000 * int k))"
  "av_find_input_format_sdp env0 = True"
  "avformat_alloc_context env0 = (\<lambda>i. 200 + i)"
  "ff_copy_whiteblacklists env0 = (\<lambda>i. 0)"
  "avformat_open_input env0 = (\<lambda>i sdp. 0)"
  "ffio_fdopen env0 = (\<lambda>i. 0)"
  "avcodec_parameters_copy env0 = (\<lambda>i. 0)"
  "SDP_MAX_SIZE env0 = 16384"
  by (simp_all add: env0_def)

lemma wait_env0: "wait_for_connection env0 10005000 0 = Some (0, RTC_CONNECTED, 3)"
  using wait_for_connection_first [of 3 env0 10005000] by (simp add: env0_fields)

lemma c_string_descriptions:
  "c_string 16384 ''m=video'' = Inr ''m=video''" "c_string 16384 ''m=audio'' = Inr ''m=audio''"
  "c_string 16384 ''offer'' = Inr ''offer''" "c_string 16384 ''answer'' = Inr ''answer''"
  by (simp_all add: c_string_def)

lemma run_add: "\<exists>c ev. whep_add_tracks env0 avctx_whep session_fresh = Continue (c, [], ev)
   \<and> peer_connection c = 1 \<and> avctx c = Some ''http://whep.example/out'' \<and> bearer_token c = None
   \<and> connection_timeout c = 10000000 \<and> nb_tracks c = 2 
   \<and> (\<exists>t0 t1. tracks c = Some [t0, t1] \<and> track_id t0 = 2 \<and> track_id t1 = 3)"
  unfolding whep_add_tracks_def Let_def ff_webrtc_init_connection_def
    ff_webrtc_generate_media_stream_id_def update_track_def
  by (simp add: env0_fields session_fresh_def avctx_whep_def whep_video_track_init_def
      whep_audio_track_init_def zero_track_def)


lemma run_create:
  assumes "peer_connection c = 1" "avctx c = Some u" "bearer_token c = None"
  shows "\<exists>c' ev'. ff_webrtc_create_resource env0 c = Inr (0, c', ev')
    \<and> connection_timeout c' = connection_timeout c"
  unfolding ff_webrtc_create_resource_def Let_def post_headers_def av_asprintf_def
  by (simp add: env0_fields assms c_string_descriptions RTC_ERR_SUCCESS_def)

lemma run_connect:
  assumes "peer_connection c = 1" "avctx c = Some u" "bearer_token c = None"
    "connection_timeout c = 10000000"
  shows "\<exists>c' ev'. whep_connect env0 (c, sts, ev) = Some (Continue (c', sts, ev'))"
proof -
  from run_create [OF assms(1-3)] assms(4) obtain c' ev' where
    "ff_webrtc_create_resource env0 c = Inr (0, c', ev')" "connection_timeout c' = 10000000"
    by auto
  then show ?thesis
    by (simp add: whep_connect_def env0_fields wait_env0)
qed

lemma run_open:
  assumes "tracks c = Some [t0, t1]" "track_id t0 = 2" "track_id t1 = 3"
  shows "\<exists>c' ev'. whep_open_tracks env0 0 (Suc (Suc 0)) (c, [], ev) =
     Continue (c', [rtp_ctx_stream0 env0 200, rtp_ctx_stream0 env0 201], ev')"
  unfolding whep_open_tracks.simps then_step_def whep_open_track_def Let_def track_at_def
    ff_webrtc_init_urlcontext_def update_track_def
  by (simp add: env0_fields assms c_string_descriptions)

lemma run_whep:
  "\<exists>c ev. whep_read_header env0 avctx_whep session_fresh =
     Some (Inr (0, c, [rtp_ctx_stream0 env0 200, rtp_ctx_stream0 env0 201], ev))"
proof -
  from run_add obtain c0 ev0 t0 t1 where
    add: "whep_add_tracks env0 avctx_whep session_fresh = Continue (c0, [], ev0)" and
    c0: "peer_connection c0 = 1" "avctx c0 = Some ''http://whep.example/out''"
      "bearer_token c0 = None" "connection_timeout c0 = 10000000" "nb_tracks c0 = 2"
      "tracks c0 = Some [t0, t1]" "track_id t0 = 2" "track_id t1 = 3"
    by blast
  from run_connect [OF c0(1-4)] obtain c1 ev1 where
    conn: "whep_connect env0 (c0, [], ev0) = Some (Continue (c1, [], ev1))" by blast
  from whep_connect_continue [OF conn] c0 have
    c1: "tracks c1 = Some [t0, t1]" "nb_tracks c1 = 2" by simp_all
  from run_open [OF c1(1) c0(7,8)] obtain c2 ev2 where
    "whep_open_tracks env0 0 (Suc (Suc 0)) (c1, [], ev1) =
       Continue (c2, [rtp_ctx_stream0 env0 200, rtp_ctx_stream0 env0 201], ev2)" by blast
  with add conn c1(2) show ?thesis
    by (simp add: whep_read_header_def numeral_2_eq_2)
qed

lemma whep_read_header_env0:
  "\<exists>c ev. whep_read_header env0 avctx_whep session_fresh =
      Some (Inr (0, c,
        [\<lparr>codecpar = \<lparr>codec_type = AVMEDIA_TYPE_VIDEO, codec_id = AV_CODEC_ID_H264,
             sample_rate = 0, ch_layout = AV_CHANNEL_LAYOUT_OTHER 0\<rparr>, time_base = (1, 90000)\<rparr>,
         \<lparr>codecpar = \<lparr>codec_type = AVMEDIA_TYPE_AUDIO, codec_id = AV_CODEC_ID_OPUS,
             sample_rate = 48000, ch_layout = AV_CHANNEL_LAYOUT_STEREO\<rparr>, time_base = (1, 48000)\<rparr>],
        ev)) \<and>
    filter is_add_track ev =
      [RtcAddTrackEx (peer_connection c)
         (whep_video_track_init env0 ''00112233-4455-6677-8899-aabbccddeeff''),
       RtcAddTrackEx (peer_connection c)
         (whep_audio_track_init env0 ''00112233-4455-6677-8899-aabbccddeeff'')]"
proof -
  from run_whep obtain c ev where
    run: "whep_read_header env0 avctx_whep session_fresh =
     Some (Inr (0, c, [rtp_ctx_stream0 env0 200, rtp_ctx_stream0 env0 201], ev))" by blast
  have sdp: "av_find_input_format_sdp env0" by (simp add: env0_fields)
  have id: "snd (ff_webrtc_generate_media_stream_id env0) = ''00112233-4455-6677-8899-aabbccddeeff''"
    by (simp add: ff_webrtc_generate_media_stream_id_def env0_fields)
  from whep_read_header_streams [OF run _ sdp] have
    "filter is_add_track ev =
      [RtcAddTrackEx (peer_connection c)
         (whep_video_track_init env0 ''00112233-4455-6677-8899-aabbccddeeff''),
       RtcAddTrackEx (peer_connection c)
         (whep_audio_track_init env0 ''00112233-4455-6677-8899-aabbccddeeff'')]"
    by (auto simp: id)
  moreover have "rtp_ctx_stream0 env0 200 = \<lparr>codecpar = \<lparr>codec_type = AVMEDIA_TYPE_VIDEO,
      codec_id = AV_CODEC_ID_H264, sample_rate = 0, ch_layout = AV_CHANNEL_LAYOUT_OTHER 0\<rparr>,
      time_base = (1, 90000)\<rparr>"
    "rtp_ctx_stream0 env0 201 = \<lparr>codecpar = \<lparr>codec_type = AVMEDIA_TYPE_AUDIO,
      codec_id = AV_CODEC_ID_OPUS, sample_rate = 48000, ch_layout = AV_CHANNEL_LAYOUT_STEREO\<rparr>,
      time_base = (1, 48000)\<rparr>"
    by (simp_all add: env0_def)
  ultimately show ?thesis using run by auto
qed


text \<open>The open without an SDP demuxer, run.\<close>

lemma no_sdp_add:
  "whep_add_tracks env_no_sdp avctx_whep session_fresh =
     Continue (session_added, [],
       [RtcCreatePeerConnection, RtcSetUserPointer 1, RtcSetStateChangeCallback 1,
        RtcAddTrackEx 1 (whep_video_track_init env_no_sdp ''00112233-4455-6677-8899-aabbccddeeff''),
        RtcAddTrackEx 1 (whep_audio_track_init env_no_sdp ''00112233-4455-6677-8899-aabbccddeeff'')])"
  unfolding whep_add_tracks_def Let_def ff_webrtc_init_connection_def
    ff_webrtc_generate_media_stream_id_def update_track_def
  by (simp add: env_no_sdp_def env0_fields session_fresh_def avctx_whep_def
      whep_video_track_init_def whep_audio_track_init_def zero_track_def session_added_def)

lemma no_sdp_create:
  "ff_webrtc_create_resource env_no_sdp session_added =
     Inr (0, session_added\<lparr>resource_location := Some ''http://whip.example/resource/7''\<rparr>,
       [RtcSetLocalDescription 1 ''offer'', Ffurl_alloc ''http://whep.example/out'',
        Ffurl_connect (offer_request ''http://whep.example/out''), Ffurl_read_complete 16384,
        RtcSetRemoteDescription 1 ''answer'' ''answer'', Ffurl_closep ''http://whep.example/out''])"
  unfolding ff_webrtc_create_resource_def Let_def post_headers_def av_asprintf_def
  by (simp add: env_no_sdp_def env0_fields session_added_def c_string_descriptions
      RTC_ERR_SUCCESS_def offer_request_def)

lemma no_sdp_wait: "wait_for_connection env_no_sdp 10005000 0 = Some (0, RTC_CONNECTED, 3)"
  using wait_for_connection_first [of 3 env_no_sdp 10005000]
  by (simp add: env_no_sdp_def env0_fields)

lemma no_sdp_connect:
  "whep_connect env_no_sdp (session_added, [],
       [RtcCreatePeerConnection, RtcSetUserPointer 1, RtcSetStateChangeCallback 1,
        RtcAddTrackEx 1 (whep_video_track_init env_no_sdp ''00112233-4455-6677-8899-aabbccddeeff''),
        RtcAddTrackEx 1 (whep_audio_track_init env_no_sdp ''00112233-4455-6677-8899-aabbccddeeff'')])
     = Some (Continue (session_connected, [], egress_setup_trace env_no_sdp))"
proof -
  have t: "av_gettime_relative env_no_sdp + connection_timeout session_added = 10005000"
    by (simp add: env_no_sdp_def env0_fields session_added_def)
  show ?thesis
    unfolding whep_connect_def
    by (simp add: no_sdp_create t no_sdp_wait session_connected_def egress_setup_trace_def
        numeral_3_eq_3)
qed

lemma no_sdp_open:
  "whep_open_tracks env_no_sdp 0 (nat (nb_tracks session_connected)) (session_connected, [], ev) =
     Goto_fail 8 (session_connected, [], ev)"
proof -
  have n: "nat (nb_tracks session_connected) = Suc (Suc 0)"
    by (simp add: session_connected_def session_added_def)
  have "whep_open_track env_no_sdp 0 (session_connected, [], ev) =
     Goto_fail 8 (session_connected, [], ev)"
    unfolding whep_open_track_def track_at_def
    by (simp add: env_no_sdp_def env0_fields session_connected_def session_added_def
        c_string_descriptions)
  then show ?thesis
    by (simp add: n then_step_def)
qed

lemma session_connected_deinit:
  "ff_webrtc_deinit session_connected =
     Inr (session_connected\<lparr>tracks := None, peer_connection := 0, resource_location := None\<rparr>,
          [RtcDeleteTrack 0 2, RtcDeleteTrack 1 3, Av_freep_tracks, RtcDeletePeerConnection 1,
           Av_freep_resource_location])"
  by (simp add: ff_webrtc_deinit_def session_connected_def session_added_def release_track_def
      eval_nat_numeral)

text \<open>
  C5. Every successful egress open exposes exactly two streams, video then audio. The
  code does not keep this when \<open>av_find_input_format("sdp")\<close> finds no demuxer: the two
  receive-only tracks are added, the resource is created and the connection comes up; in
  the first pass of the loop over the tracks \<open>rtcGetTrackDescription\<close> stores 8 in \<open>ret\<close>,
  and \<open>if (!infmt) goto fail;\<close> leaves it there. The session is torn down and
  \<open>whep_read_header\<close> returns 8, which is not negative, with no stream created. Every
  other jump to \<open>fail\<close> in the function is taken with a negative \<open>ret\<close>.
\<close>

theorem whep_read_header_without_sdp_demuxer:
  "whep_read_header env_no_sdp avctx_whep session_fresh =
     Some (Inr (8,
       session_connected\<lparr>tracks := None, peer_connection := 0, resource_location := None\<rparr>,
       [],
       egress_setup_trace env_no_sdp @
       [RtcDeleteTrack 0 2, RtcDeleteTrack 1 3, Av_freep_tracks, RtcDeletePeerConnection 1,
        Av_freep_resource_location]))"
  unfolding whep_read_header_def
  by (simp add: no_sdp_add no_sdp_connect no_sdp_open session_connected_deinit)


subsection \<open>The connect wait, in both roles\<close>

lemma whep_add_tracks_in_bounds:
  assumes "whep_add_tracks e a ctx0 = Continue (c, sts, ev)"
  shows "tracks_in_bounds c"
  using whep_add_tracks_continue [OF assms] by (auto simp: tracks_in_bounds_def)

text \<open>
  C2. After a create-resource that succeeded, in both roles: let pass \<open>k\<close> of the wait loop
  be the first that sees the state \<open>RTC_CONNECTED\<close>, \<open>RTC_FAILED\<close> or \<open>RTC_CLOSED\<close>, or a
  clock beyond the start time plus \<open>connection_timeout\<close>. Then the loop returns at pass
  \<open>k\<close>, after exactly \<open>k\<close> sleeps: with 0 when the state seen is \<open>RTC_CONNECTED\<close>, with
  \<open>AVERROR_EXTERNAL\<close> otherwise. So \<open>whip_write_header\<close> returns that value; the egress
  open runs on when it is 0, and otherwise tears down and returns \<open>AVERROR_EXTERNAL\<close>. A
  \<open>RTC_FAILED\<close> or \<open>RTC_CLOSED\<close> seen before the deadline ends the wait there and then.
\<close>

theorem connect_wait_outcome:
  assumes "\<forall>j<k. fst (observe e j) \<notin> {RTC_CONNECTED, RTC_FAILED, RTC_CLOSED}
             \<and> snd (observe e j) \<le> av_gettime_relative e + connection_timeout c"
    and "fst (observe e k) \<in> {RTC_CONNECTED, RTC_FAILED, RTC_CLOSED}
           \<or> av_gettime_relative e + connection_timeout c < snd (observe e k)"
    and "ff_webrtc_create_resource e ctx = Inr (r, c, ev)" and "0 \<le> r"
  shows "wait_for_connection e (av_gettime_relative e + connection_timeout c) 0 =
      Some (if fst (observe e k) = RTC_CONNECTED then 0 else AVERROR_EXTERNAL,
            fst (observe e k), k) \<and>
    whip_write_header e ctx =
      Some (Inr (if fst (observe e k) = RTC_CONNECTED then 0 else AVERROR_EXTERNAL,
                 c\<lparr>state := fst (observe e k)\<rparr>, ev @ replicate k (Av_usleep 1000))) \<and>
    whep_connect e (ctx, sts, ev0) =
      Some ((if fst (observe e k) = RTC_CONNECTED then Continue else Goto_fail AVERROR_EXTERNAL)
              (c\<lparr>state := fst (observe e k)\<rparr>, sts, ev0 @ ev @ replicate k (Av_usleep 1000))) \<and>
    (whep_add_tracks e a ctx0 = Continue (ctx, sts, ev0) \<and> fst (observe e k) \<noteq> RTC_CONNECTED \<longrightarrow>
       (\<exists>c' evd. ff_webrtc_deinit (c\<lparr>state := fst (observe e k)\<rparr>) = Inr (c', evd) \<and>
          whep_read_header e a ctx0 =
            Some (Inr (AVERROR_EXTERNAL, c', sts,
                       (ev0 @ ev @ replicate k (Av_usleep 1000)) @ evd))))"
proof -
  let ?v = "if fst (observe e k) = RTC_CONNECTED then 0 else AVERROR_EXTERNAL"
  let ?c = "c\<lparr>state := fst (observe e k)\<rparr>"
  have w: "wait_for_connection e (av_gettime_relative e + connection_timeout c) 0 =
      Some (?v, fst (observe e k), k)"
    using assms(1,2) by (rule wait_for_connection_first)
  have ingest: "whip_write_header e ctx = Some (Inr (?v, ?c, ev @ replicate k (Av_usleep 1000)))"
    using assms(3,4) w by (simp add: whip_write_header_def)
  have egress: "whep_connect e (ctx, sts, ev0) =
      Some ((if fst (observe e k) = RTC_CONNECTED then Continue else Goto_fail AVERROR_EXTERNAL)
              (?c, sts, ev0 @ ev @ replicate k (Av_usleep 1000)))"
    using assms(3,4) w AVERROR_EXTERNAL_neg by (simp add: whep_connect_def)
  have open_fails: "\<exists>c' evd. ff_webrtc_deinit ?c = Inr (c', evd) \<and>
          whep_read_header e a ctx0 =
            Some (Inr (AVERROR_EXTERNAL, c', sts, (ev0 @ ev @ replicate k (Av_usleep 1000)) @ evd))"
    if add: "whep_add_tracks e a ctx0 = Continue (ctx, sts, ev0)"
      and nc: "fst (observe e k) \<noteq> RTC_CONNECTED"
  proof -
    from whep_add_tracks_in_bounds [OF add] create_resource_frame [OF assms(3)]
    have "tracks_in_bounds ?c" by (simp add: tracks_in_bounds_def split: option.splits)
    from ff_webrtc_deinit_in_bounds [OF this] obtain c' evd
      where d: "ff_webrtc_deinit ?c = Inr (c', evd)" by blast
    with add egress nc show ?thesis by (simp add: whep_read_header_def)
  qed
  from w ingest egress open_fails show ?thesis by blast
qed

lemma run_create_session_new:
  "\<exists>c ev. ff_webrtc_create_resource e session_new = Inr (0, c, ev) \<and> connection_timeout c = 10000000"
  if "e = env0\<lparr>observe := f\<rparr>" for e f
  unfolding ff_webrtc_create_resource_def Let_def post_headers_def av_asprintf_def
  by (simp add: that env0_fields session_new_def c_string_descriptions RTC_ERR_SUCCESS_def)

theorem connect_wait_outcome_witness:
  "(\<exists>c ev. whip_write_header env0 session_new =
      Some (Inr (0, c\<lparr>state := RTC_CONNECTED\<rparr>, ev @ replicate 3 (Av_usleep 1000)))) \<and>
   (\<exists>c ev. whip_write_header env_failed session_new =
      Some (Inr (AVERROR_EXTERNAL, c\<lparr>state := RTC_FAILED\<rparr>, ev @ replicate 2 (Av_usleep 1000)))) \<and>
   (\<exists>c ev. whip_write_header env_silent session_new =
      Some (Inr (AVERROR_EXTERNAL, c\<lparr>state := RTC_CONNECTING\<rparr>,
                 ev @ replicate 10000 (Av_usleep 1000))))"
proof -
  obtain c0 ev0 where r0: "ff_webrtc_create_resource env0 session_new = Inr (0, c0, ev0)"
    "connection_timeout c0 = 10000000"
    using run_create_session_new [of env0 "observe env0"] by auto
  obtain c1 ev1 where r1: "ff_webrtc_create_resource env_failed session_new = Inr (0, c1, ev1)"
    "connection_timeout c1 = 10000000"
    using run_create_session_new [OF env_failed_def] by auto
  obtain c2 ev2 where r2: "ff_webrtc_create_resource env_silent session_new = Inr (0, c2, ev2)"
    "connection_timeout c2 = 10000000"
    using run_create_session_new [OF env_silent_def] by auto
  have "whip_write_header env0 session_new =
      Some (Inr (0, c0\<lparr>state := RTC_CONNECTED\<rparr>, ev0 @ replicate 3 (Av_usleep 1000)))"
    using connect_wait_outcome [of 3 env0 c0 session_new 0 ev0, OF _ _ r0(1)] r0(2)
    by (simp add: env0_fields)
  moreover have "whip_write_header env_failed session_new =
      Some (Inr (AVERROR_EXTERNAL, c1\<lparr>state := RTC_FAILED\<rparr>, ev1 @ replicate 2 (Av_usleep 1000)))"
    using connect_wait_outcome [of 2 env_failed c1 session_new 0 ev1, OF _ _ r1(1)] r1(2)
    by (simp add: env_failed_def env0_fields less_Suc_eq numeral_2_eq_2)
  moreover have "whip_write_header env_silent session_new =
      Some (Inr (AVERROR_EXTERNAL, c2\<lparr>state := RTC_CONNECTING\<rparr>,
                 ev2 @ replicate 10000 (Av_usleep 1000)))"
    using connect_wait_outcome [of 10000 env_silent c2 session_new 0 ev2, OF _ _ r2(1)] r2(2)
    by (simp add: env_silent_def env0_fields)
  ultimately show ?thesis by blast
qed


subsection \<open>The ingest open\<close>

lemma in_conversion_table_iff: "in_conversion_table cid \<longleftrightarrow> (\<forall>n. cid \<noteq> AV_CODEC_ID_OTHER n)"
  by (cases cid) (simp_all add: in_conversion_table_def AVERROR_def EINVAL_def)

lemma whip_add_track_fail_neg:
  "whip_add_track e m i st s = Goto_fail r s' \<Longrightarrow> r < 0"
  unfolding whip_add_track_def Let_def
  by (auto simp: AVERROR_EINVAL_neg split: prod.splits sum.splits if_splits option.splits)

lemma whip_init_stream_fail_neg:
  "whip_init_stream e m i st s = Goto_fail r s' \<Longrightarrow> r < 0"
  unfolding whip_init_stream_def
  by (auto simp: AVERROR_EINVAL_neg split: prod.splits AVMediaType.splits if_splits
      dest: whip_add_track_fail_neg)

lemma whip_init_streams_fail_neg:
  "whip_init_streams e m i ss s = Goto_fail r s' \<Longrightarrow> r < 0"
proof (induction ss arbitrary: i s)
  case Nil
  then show ?case by simp
next
  case (Cons st ss)
  then show ?case
    by (auto simp: then_step_def split: step.splits dest: whip_init_stream_fail_neg)
qed

lemma whip_init_stream_unsupported_audio:
  "unsupported_audio st \<Longrightarrow> whip_init_stream e m i st s = Goto_fail (AVERROR EINVAL) s"
  by (auto simp: whip_init_stream_def unsupported_audio_def split: prod.splits)

lemma whip_init_streams_unsupported_audio:
  "\<exists>st\<in>set ss. unsupported_audio st \<Longrightarrow> whip_init_streams e m i ss s \<noteq> Continue s'"
proof (induction ss arbitrary: i s)
  case Nil
  then show ?case by simp
next
  case (Cons st ss)
  show ?case
  proof (cases "unsupported_audio st")
    case True
    then show ?thesis
      by (simp add: whip_init_stream_unsupported_audio then_step_def)
  next
    case False
    with Cons.prems have "\<exists>st\<in>set ss. unsupported_audio st" by simp
    from Cons.IH [OF this] show ?thesis
      by (auto simp: then_step_def split: step.splits)
  qed
qed

lemma whip_init_streams_append:
  "whip_init_streams e m i (xs @ ys) s =
     then_step (whip_init_streams e m i xs s) (whip_init_streams e m (i + length xs) ys)"
proof (induction xs arbitrary: i s)
  case Nil
  then show ?case by (simp add: then_step_def)
next
  case (Cons x xs)
  then show ?case
    by (simp add: then_step_def split: step.splits)
qed

lemma whip_init_streams_skipped:
  "\<forall>st\<in>set ys. \<exists>x. codec_type (codecpar st) = AVMEDIA_TYPE_OTHER x \<Longrightarrow>
     whip_init_streams e m i ys s = Continue s"
proof (induction ys arbitrary: i)
  case Nil
  then show ?case by simp
next
  case (Cons y ys)
  then show ?case
    by (auto simp: then_step_def whip_init_stream_def split: prod.splits)
qed


lemma update_track_frame [simp]:
  "peer_connection (update_track c i f) = peer_connection c"
  "nb_tracks (update_track c i f) = nb_tracks c"
  "avctx (update_track c i f) = avctx c"
  "rw_timeout (update_track c i f) = rw_timeout c"
  by (simp_all add: update_track_def)

lemma update_track_tracks:
  "tracks c = Some ts \<Longrightarrow> tracks (update_track c i f) = Some (ts[i := f (ts ! i)])"
  by (simp add: update_track_def)

lemma fmtp_profile_ok:
  assumes "\<forall>x. av_malloc_ok e x" "CHR 0x0D \<in> set fmtp"
  shows "\<exists>pr. fmtp_profile e fmtp = Inr pr"
  using assms by (simp add: fmtp_profile_def strchr_def av_asprintf_def)

lemma whip_add_track_accepts:
  assumes ok: "foreign_calls_succeed e"
    and ts: "tracks c = Some ts" "i < length ts"
    and cid: "in_conversion_table (codec_id (codecpar st))"
  shows "\<exists>c' sdp' ev' ts'. whip_add_track e m i st (c, sdp, ev) = Continue (c', sdp', ev')
    \<and> tracks c' = Some ts' \<and> length ts' = length ts"
proof -
  from ok have alloc: "av_malloc_ok e x" for x by (simp add: foreign_calls_succeed_def)
  have url: "ff_webrtc_init_urlcontext e c i =
      Inr (0, c\<lparr>tracks := Some (ts[i := (ts ! i)\<lparr>rtp_url_context :=
                  Some \<lparr>prot = ''webrtc'', max_packet_size = RTP_MAX_PACKET_SIZE,
                        flags = AVIO_FLAG_READ_WRITE, url_rw_timeout = rw_timeout c\<rparr>\<rparr>])\<rparr>)"
    (is "_ = Inr (0, ?c1)")
    using ts alloc by (simp add: ff_webrtc_init_urlcontext_def)
  obtain r2 p where mux: "ff_rtp_chain_mux_open e i = (r2, p)" by (cases "ff_rtp_chain_mux_open e i")
  with ok have r2: "\<not> r2 < 0"
    by (metis foreign_calls_succeed_def fst_conv not_less)
  obtain r3 sdp2 where sdpw: "ff_sdp_write_media e i sdp = (r3, sdp2)"
    by (cases "ff_sdp_write_media e i sdp")
  with ok have r3: "\<not> r3 < 0"
    by (metis foreign_calls_succeed_def fst_conv not_less)
  have prof: "\<exists>pr sdp3. (case strstr sdp2 ''a=fmtp:'' of
                 None \<Rightarrow> Inr (None, sdp2)
               | Some fmtp \<Rightarrow> (case fmtp_profile e fmtp of Inl f \<Rightarrow> Inl f | Inr pr \<Rightarrow> Inr (pr, []))) =
             Inr (pr, sdp3)"
  proof (cases "strstr sdp2 ''a=fmtp:''")
    case None
    then show ?thesis by simp
  next
    case (Some fmtp)
    with ok sdpw have "CHR 0x0D \<in> set fmtp"
      by (metis foreign_calls_succeed_def snd_conv)
    from fmtp_profile_ok [OF _ this] alloc obtain pr where "fmtp_profile e fmtp = Inr pr" by blast
    with Some show ?thesis by simp
  qed
  then obtain pr sdp3 where prof': "(case strstr sdp2 ''a=fmtp:'' of
                 None \<Rightarrow> Inr (None, sdp2)
               | Some fmtp \<Rightarrow> (case fmtp_profile e fmtp of Inl f \<Rightarrow> Inl f | Inr pr \<Rightarrow> Inr (pr, []))) =
             Inr (pr, sdp3)" by blast
  from cid have conv: "\<not> fst (ff_webrtc_convert_codec (codec_id (codecpar st))) < 0"
    by (simp add: in_conversion_table_def)
  from ok have add: "\<not> rtcAddTrackEx e pc init < 0" for pc init
    by (simp add: foreign_calls_succeed_def not_less)
  have t1: "tracks ?c1 = Some (ts[i := (ts ! i)\<lparr>rtp_url_context :=
                  Some \<lparr>prot = ''webrtc'', max_packet_size = RTP_MAX_PACKET_SIZE,
                        flags = AVIO_FLAG_READ_WRITE, url_rw_timeout = rw_timeout c\<rparr>\<rparr>])"
    by simp
  show ?thesis
    unfolding whip_add_track_def Let_def
    by (simp add: url mux r2 sdpw r3 prof' conv add update_track_tracks [OF t1]
        update_track_tracks [OF update_track_tracks [OF t1]])
qed

lemma whip_init_stream_accepts:
  assumes "foreign_calls_succeed e" "tracks c = Some ts" "i < length ts" "stream_accepted st"
  shows "\<exists>c' sdp' ev' ts'. whip_init_stream e m i st (c, sdp, ev) = Continue (c', sdp', ev')
    \<and> tracks c' = Some ts' \<and> length ts' = length ts"
proof (cases "codec_type (codecpar st)")
  case AVMEDIA_TYPE_VIDEO
  with assms(4) have "in_conversion_table (codec_id (codecpar st))"
    by (simp add: stream_accepted_def)
  from whip_add_track_accepts [OF assms(1-3) this] AVMEDIA_TYPE_VIDEO show ?thesis
    by (simp add: whip_init_stream_def)
next
  case AVMEDIA_TYPE_AUDIO
  with assms(4) have a: "in_conversion_table (codec_id (codecpar st))"
    "sample_rate (codecpar st) = 48000" "ch_layout (codecpar st) = AV_CHANNEL_LAYOUT_STEREO"
    by (simp_all add: stream_accepted_def)
  from whip_add_track_accepts [OF assms(1-3) a(1)] AVMEDIA_TYPE_AUDIO a(2,3) show ?thesis
    by (simp add: whip_init_stream_def)
next
  case (AVMEDIA_TYPE_OTHER x)
  with assms(2) show ?thesis by (simp add: whip_init_stream_def)
qed

lemma whip_init_streams_accepts:
  assumes "foreign_calls_succeed e"
  shows "tracks c = Some ts \<Longrightarrow> i + length ss \<le> length ts \<Longrightarrow> \<forall>st\<in>set ss. stream_accepted st \<Longrightarrow>
    \<exists>s'. whip_init_streams e m i ss (c, sdp, ev) = Continue s'"
proof (induction ss arbitrary: i c ts sdp ev)
  case Nil
  then show ?case by simp
next
  case (Cons st ss)
  from Cons.prems have i: "i < length ts" and st: "stream_accepted st" by simp_all
  from whip_init_stream_accepts [OF assms Cons.prems(1) i st] obtain c' sdp' ev' ts' where
    one: "whip_init_stream e m i st (c, sdp, ev) = Continue (c', sdp', ev')" and
    ts': "tracks c' = Some ts'" "length ts' = length ts"
    by blast
  from Cons.prems ts' have "Suc i + length ss \<le> length ts'" "\<forall>st\<in>set ss. stream_accepted st"
    by simp_all
  from Cons.IH [OF ts'(1) this] obtain s' where
    "whip_init_streams e m (Suc i) ss (c', sdp', ev') = Continue s'" by blast
  with one have "whip_init_streams e m i (st # ss) (c, sdp, ev) = Continue s'"
    by (simp add: then_step_def)
  then show ?case ..
qed


lemma whip_init_cases:
  "whip_init e a ctx = Inr (r, c, ev) \<Longrightarrow>
     r < 0 \<or> (\<exists>c1 ev1 sdp. whip_init_streams e (snd (ff_webrtc_generate_media_stream_id e)) 0
                 (streams a)
                 (c1\<lparr>tracks := Some (replicate (length (streams a)) zero_track)\<rparr>, [], ev1)
               = Continue (c, sdp, ev) \<and> r = 0)"
  unfolding whip_init_def Let_def
  by (auto simp: AVERROR_ENOMEM_neg split: prod.splits if_splits step.splits
      dest: whip_init_streams_fail_neg)

text \<open>
  C6. For every ingest open with an audio stream at index \<open>k\<close> whose sample rate is not
  48000 or whose channel layout is not stereo: the open never succeeds, every value it
  returns is negative; and when everything before that stream goes through (the open
  with the streams from \<open>k\<close> on replaced by streams the loop skips returns 0), the open
  stops at that stream with \<open>AVERROR(EINVAL)\<close>, in the same context and with the same
  trace, so nothing was set up for the stream. Video streams are only asked for a codec
  of the conversion table: when the foreign calls succeed and every stream is accepted
  (video with a codec of the table, whatever its other parameters; audio at 48000 Hz,
  stereo, with a codec of the table), the open returns 0.
\<close>

theorem whip_init_validates_streams:
  "(k < length (streams a) \<and> unsupported_audio (streams a ! k) \<longrightarrow>
      (\<forall>r c ev. whip_init e a ctx = Inr (r, c, ev) \<longrightarrow> r < 0) \<and>
      (\<forall>c ev. whip_init e (a\<lparr>streams := take k (streams a)
                                @ replicate (length (streams a) - k) data_stream\<rparr>) ctx
                 = Inr (0, c, ev)
         \<longrightarrow> whip_init e a ctx = Inr (AVERROR EINVAL, c, ev))) \<and>
   (foreign_calls_succeed e \<and> (\<forall>st\<in>set (streams a). stream_accepted st) \<longrightarrow>
      (\<exists>c ev. whip_init e a ctx = Inr (0, c, ev)))"
proof (intro conjI impI allI)
  fix r c ev
  assume bad: "k < length (streams a) \<and> unsupported_audio (streams a ! k)"
    and run: "whip_init e a ctx = Inr (r, c, ev)"
  from bad have "\<exists>st\<in>set (streams a). unsupported_audio st" by (meson nth_mem)
  from whip_init_streams_unsupported_audio [OF this] whip_init_cases [OF run]
  show "r < 0" by blast
next
  fix c ev
  let ?ss = "streams a"
  let ?a' = "a\<lparr>streams := take k ?ss @ replicate (length ?ss - k) data_stream\<rparr>"
  assume bad: "k < length ?ss \<and> unsupported_audio (?ss ! k)"
    and run: "whip_init e ?a' ctx = Inr (0, c, ev)"
  from bad have len: "length (streams ?a') = length ?ss" by simp
  have split: "?ss = take k ?ss @ (?ss ! k) # drop (Suc k) ?ss"
    using bad by (simp add: id_take_nth_drop)
  have skip: "whip_init_streams e m i (replicate n data_stream) s = Continue s" for m i n s
    by (rule whip_init_streams_skipped) (simp add: data_stream_def)
  have pre: "whip_init_streams e m 0 ?ss s0 = Goto_fail (AVERROR EINVAL) s1"
    if "whip_init_streams e m 0 (streams ?a') s0 = Continue s1" for m s0 s1
  proof -
    from that have "whip_init_streams e m 0 (take k ?ss) s0 = Continue s1"
      by (auto simp: whip_init_streams_append then_step_def skip split: step.splits)
    moreover have "whip_init_streams e m 0 ?ss s0 =
      then_step (whip_init_streams e m 0 (take k ?ss) s0)
        (whip_init_streams e m (0 + length (take k ?ss)) ((?ss ! k) # drop (Suc k) ?ss))"
      by (subst split) (rule whip_init_streams_append)
    ultimately show ?thesis
      using bad by (simp add: then_step_def whip_init_stream_unsupported_audio)
  qed
  obtain ret c1 ev1 where
    conn: "ff_webrtc_init_connection e (ctx\<lparr>avctx := Some (url a)\<rparr>) = (ret, c1, ev1)"
    by (cases "ff_webrtc_init_connection e (ctx\<lparr>avctx := Some (url a)\<rparr>)")
  obtain ret2 m where id: "ff_webrtc_generate_media_stream_id e = (ret2, m)"
    by (cases "ff_webrtc_generate_media_stream_id e")
  let ?s0 = "(c1\<lparr>tracks := Some (replicate (length ?ss) zero_track)\<rparr>, [], ev1)"
  have eq: "whip_init e b ctx =
      (if ret < 0 then Inr (ret, c1, ev1)
       else if \<not> av_malloc_ok e Alloc_tracks then Inr (AVERROR ENOMEM, c1\<lparr>tracks := None\<rparr>, ev1)
       else if ret2 < 0
       then Inr (ret2, c1\<lparr>tracks := Some (replicate (length ?ss) zero_track)\<rparr>, ev1)
       else (case whip_init_streams e m 0 (streams b) ?s0 of
               Crash f \<Rightarrow> Inl f
             | Goto_fail r (c, sdp, ev) \<Rightarrow> Inr (r, c, ev)
             | Continue (c, sdp, ev) \<Rightarrow> Inr (0, c, ev)))"
    if "url b = url a" "length (streams b) = length ?ss" for b
    unfolding whip_init_def Let_def that conn id by simp
  have nz: "AVERROR ENOMEM \<noteq> 0" by (simp add: AVERROR_def ENOMEM_def)
  have run': "whip_init e ?a' ctx =
      (if ret < 0 then Inr (ret, c1, ev1)
       else if \<not> av_malloc_ok e Alloc_tracks then Inr (AVERROR ENOMEM, c1\<lparr>tracks := None\<rparr>, ev1)
       else if ret2 < 0
       then Inr (ret2, c1\<lparr>tracks := Some (replicate (length ?ss) zero_track)\<rparr>, ev1)
       else (case whip_init_streams e m 0 (streams ?a') ?s0 of
               Crash f \<Rightarrow> Inl f
             | Goto_fail r (c, sdp, ev) \<Rightarrow> Inr (r, c, ev)
             | Continue (c, sdp, ev) \<Rightarrow> Inr (0, c, ev)))"
    by (rule eq) (simp, rule len)
  have ok: "\<not> ret < 0" "av_malloc_ok e Alloc_tracks" "\<not> ret2 < 0"
    using run nz unfolding run' by (simp_all split: if_splits)
  have "\<exists>sdp. whip_init_streams e m 0 (streams ?a') ?s0 = Continue (c, sdp, ev)"
  proof (cases "whip_init_streams e m 0 (streams ?a') ?s0")
    case (Crash f)
    with run ok show ?thesis unfolding run' by simp
  next
    case (Goto_fail r s)
    from whip_init_streams_fail_neg [OF this] have "r \<noteq> 0" by simp
    with Goto_fail run ok show ?thesis unfolding run' by (simp split: prod.splits)
  next
    case (Continue s)
    with run ok show ?thesis unfolding run' by (simp split: prod.splits)
  qed
  then obtain sdp where "whip_init_streams e m 0 (streams ?a') ?s0 = Continue (c, sdp, ev)" ..
  from pre [OF this] ok show "whip_init e a ctx = Inr (AVERROR EINVAL, c, ev)"
    by (subst eq) simp_all
next
  assume ok: "foreign_calls_succeed e \<and> (\<forall>st\<in>set (streams a). stream_accepted st)"
  let ?c1 = "ctx\<lparr>avctx := Some (url a), peer_connection := rtcCreatePeerConnection e\<rparr>"
  from ok have conn: "ff_webrtc_init_connection e (ctx\<lparr>avctx := Some (url a)\<rparr>) =
      (0, ?c1, [RtcCreatePeerConnection, RtcSetUserPointer (rtcCreatePeerConnection e),
                RtcSetStateChangeCallback (rtcCreatePeerConnection e)])"
    by (simp add: ff_webrtc_init_connection_def foreign_calls_succeed_def Let_def)
  from ok have id: "\<not> fst (ff_webrtc_generate_media_stream_id e) < 0"
    by (auto simp: ff_webrtc_generate_media_stream_id_def foreign_calls_succeed_def
        split: prod.splits)
  from ok have alloc: "av_malloc_ok e Alloc_tracks" by (simp add: foreign_calls_succeed_def)
  obtain ret2 m where id': "ff_webrtc_generate_media_stream_id e = (ret2, m)"
    by (cases "ff_webrtc_generate_media_stream_id e")
  let ?ev1 = "[RtcCreatePeerConnection, RtcSetUserPointer (rtcCreatePeerConnection e),
                RtcSetStateChangeCallback (rtcCreatePeerConnection e)]"
  have "\<exists>s'. whip_init_streams e m 0 (streams a)
          (?c1\<lparr>tracks := Some (replicate (length (streams a)) zero_track)\<rparr>, [], ?ev1) = Continue s'"
    using ok by (intro whip_init_streams_accepts [where ts = "replicate (length (streams a)) zero_track"])
      simp_all
  then obtain s' where "whip_init_streams e m 0 (streams a)
          (?c1\<lparr>tracks := Some (replicate (length (streams a)) zero_track)\<rparr>, [], ?ev1) = Continue s'" ..
  moreover obtain c' sdp' ev' where "s' = (c', sdp', ev')" by (cases s')
  ultimately have "whip_init e a ctx = Inr (0, c', ev')"
    unfolding whip_init_def Let_def conn using id id' alloc by simp
  then show "\<exists>c ev. whip_init e a ctx = Inr (0, c, ev)" by blast
qed


lemma strstr_suffix:
  "strstr s n = Some f \<Longrightarrow> \<exists>pre. s = pre @ f \<and> take (length n) f = n"
proof (induction s)
  case Nil
  then show ?case by (simp split: if_splits)
next
  case (Cons c cs)
  show ?case
  proof (cases "take (length n) (c # cs) = n")
    case True
    with Cons.prems have "f = c # cs" by simp
    with True show ?thesis by blast
  next
    case False
    with Cons.prems have "strstr cs n = Some f" by simp
    from Cons.IH [OF this] obtain pre where "cs = pre @ f" "take (length n) f = n" by blast
    then have "c # cs = (c # pre) @ f" by simp
    with \<open>take (length n) f = n\<close> show ?thesis by blast
  qed
qed

lemma suffix_keeps_CR:
  assumes "pre @ f = x @ [a, b]" and "2 \<le> length f"
  shows "a \<in> set f"
proof -
  from assms(1) have "rev f @ rev pre = b # a # rev x"
    by (metis rev.simps(2) rev_append append_Cons append_Nil rev_rev_ident rev_singleton_conv)
  moreover from assms(2) obtain p q r where "rev f = p # q # r"
    by (metis Suc_le_length_iff length_rev numeral_2_eq_2)
  ultimately have "q = a" by simp
  with \<open>rev f = p # q # r\<close> have "a \<in> set (rev f)" by simp
  then show ?thesis by simp
qed

lemma foreign_calls_succeed_env0: "foreign_calls_succeed env0"
proof -
  have "CHR 0x0D \<in> set fmtp"
    if "strstr (buf @ ''m=video 0 RTP/AVP 96'' @ CRLF) ''a=fmtp:'' = Some fmtp" for buf fmtp
  proof -
    from strstr_suffix [OF that] obtain pre where
      p: "buf @ ''m=video 0 RTP/AVP 96'' @ CRLF = pre @ fmtp"
        "take (length ''a=fmtp:'') fmtp = ''a=fmtp:''"
      by blast
    from arg_cong [OF p(2), of length] have "2 \<le> length fmtp" by simp
    moreover have "pre @ fmtp = (buf @ ''m=video 0 RTP/AVP 96'') @ [CHR 0x0D, CHR 0x0A]"
      using p(1) by (simp add: CRLF_def)
    ultimately show ?thesis by (rule suffix_keeps_CR [rotated])
  qed
  then show ?thesis
    by (simp add: foreign_calls_succeed_def env0_def)
qed

theorem whip_init_validates_streams_witness:
  "(\<exists>c ev. whip_init env0 (avctx_whip [video_h264, audio_opus 48000 AV_CHANNEL_LAYOUT_STEREO])
              session_fresh = Inr (0, c, ev)) \<and>
   (\<exists>c ev. whip_init env0 (avctx_whip [video_h264, audio_opus 44100 AV_CHANNEL_LAYOUT_STEREO])
              session_fresh = Inr (AVERROR EINVAL, c, ev)) \<and>
   (\<exists>c ev. whip_init env0 (avctx_whip [video_h264, audio_opus 48000 AV_CHANNEL_LAYOUT_MONO])
              session_fresh = Inr (AVERROR EINVAL, c, ev))"
proof -
  have v: "stream_accepted video_h264" "stream_accepted data_stream"
    "stream_accepted (audio_opus 48000 AV_CHANNEL_LAYOUT_STEREO)"
    by (simp_all add: stream_accepted_def in_conversion_table_def video_h264_def data_stream_def
        audio_opus_def)
  have good: "\<exists>c ev. whip_init env0 (avctx_whip [video_h264, audio_opus 48000 AV_CHANNEL_LAYOUT_STEREO])
              session_fresh = Inr (0, c, ev)"
    using whip_init_validates_streams
      [of 0 "avctx_whip [video_h264, audio_opus 48000 AV_CHANNEL_LAYOUT_STEREO]" env0 session_fresh]
      foreign_calls_succeed_env0 v by (simp add: avctx_whip_def)
  have bad: "\<exists>c ev. whip_init env0 (avctx_whip [video_h264, audio_opus r l]) session_fresh
               = Inr (AVERROR EINVAL, c, ev)"
    if "r \<noteq> 48000 \<or> l \<noteq> AV_CHANNEL_LAYOUT_STEREO" for r l
  proof -
    have "\<exists>c ev. whip_init env0 (avctx_whip [video_h264, data_stream]) session_fresh = Inr (0, c, ev)"
      using whip_init_validates_streams
        [of 0 "avctx_whip [video_h264, data_stream]" env0 session_fresh]
        foreign_calls_succeed_env0 v by (simp add: avctx_whip_def)
    then obtain c ev where
      "whip_init env0 (avctx_whip [video_h264, data_stream]) session_fresh = Inr (0, c, ev)"
      by blast
    with that whip_init_validates_streams
        [of 1 "avctx_whip [video_h264, audio_opus r l]" env0 session_fresh]
    show ?thesis
      by (auto simp: avctx_whip_def unsupported_audio_def audio_opus_def)
  qed
  from good bad [of 44100 AV_CHANNEL_LAYOUT_STEREO] bad [of 48000 AV_CHANNEL_LAYOUT_MONO]
  show ?thesis by simp
qed

subsection \<open>The order of teardown\<close>

text \<open>The sample close, run.\<close>

lemma close_resource_env0:
  "ff_webrtc_close_resource env0 (session2 s) =
     (0, (session2 s)\<lparr>resource_location := None\<rparr>,
      [Ffurl_alloc ''http://whip.example/resource/7'', Ffurl_connect delete_request,
       Ffurl_closep ''http://whip.example/resource/7'', Av_freep_resource_location])"
  by (simp add: ff_webrtc_close_resource_def env0_def session2_def delete_request_def)

text \<open>The ingest session, run from \<open>init\<close> to \<open>deinit\<close>.\<close>

lemma string_of_nat_digits: "string_of_nat 0 = ''0''" "string_of_nat (Suc 0) = ''1''"
  by code_simp+

lemma env0_mux_fields:
  "ff_rtp_chain_mux_open env0 = (\<lambda>i. (0, 100 + i))"
  "rtp_mux_payload_type env0 = (\<lambda>p. 96 + int p - 100)"
  "rtp_mux_ssrc env0 = (\<lambda>p. of_nat p)"
  "ff_sdp_write_media env0 = (\<lambda>i buf. (0, buf @ ''m=video 0 RTP/AVP 96'' @ CRLF))"
  "LIBAVFORMAT_IDENT env0 = ''Lavf60.16.100''"
  by (simp_all add: env0_def)

lemma ingest_init:
  "whip_init env0 (avctx_whip [video_h264, audio_opus 48000 AV_CHANNEL_LAYOUT_STEREO])
       session_fresh =
     Inr (0, session_ingest RTC_NEW None,
       [RtcCreatePeerConnection, RtcSetUserPointer 1, RtcSetStateChangeCallback 1,
        Avpriv_set_pts_info 0 32 1 90000, Ff_rtp_chain_mux_open 0,
        RtcAddTrackEx 1
          \<lparr>direction = RTC_DIRECTION_SENDONLY, codec = RTC_CODEC_H264, payloadType = 96,
           ssrc = 100, mid = Some ''0'', name = Some ''Lavf60.16.100'',
           msid = Some ''00112233-4455-6677-8899-aabbccddeeff'',
           trackId = Some ''00112233-4455-6677-8899-aabbccddeeff-video-0'', profile = None\<rparr>,
        Avpriv_set_pts_info 1 32 1 48000, Ff_rtp_chain_mux_open 1,
        RtcAddTrackEx 1
          \<lparr>direction = RTC_DIRECTION_SENDONLY, codec = RTC_CODEC_OPUS, payloadType = 97,
           ssrc = 101, mid = Some ''1'', name = Some ''Lavf60.16.100'',
           msid = Some ''00112233-4455-6677-8899-aabbccddeeff'',
           trackId = Some ''00112233-4455-6677-8899-aabbccddeeff-video-1'', profile = None\<rparr>])"
  by (simp add: whip_init_def whip_init_stream_def whip_add_track_def then_step_def Let_def
      ff_webrtc_init_connection_def ff_webrtc_generate_media_stream_id_def
      ff_webrtc_init_urlcontext_def update_track_def av_asprintf_def env0_fields
      env0_mux_fields session_fresh_def avctx_whip_def video_h264_def audio_opus_def
      zero_track_def session_ingest_def string_of_nat_digits RTP_MAX_PACKET_SIZE_def
      AVIO_FLAG_READ_WRITE_def CRLF_def)

lemma ingest_create:
  "ff_webrtc_create_resource env0 (session_ingest RTC_NEW None) =
     Inr (0, session_ingest RTC_NEW (Some ''http://whip.example/resource/7''),
       [RtcSetLocalDescription 1 ''offer'', Ffurl_alloc ''http://whip.example/in'',
        Ffurl_connect (offer_request ''http://whip.example/in''), Ffurl_read_complete 16384,
        RtcSetRemoteDescription 1 ''answer'' ''answer'', Ffurl_closep ''http://whip.example/in''])"
  unfolding ff_webrtc_create_resource_def Let_def post_headers_def av_asprintf_def
  by (simp add: env0_fields session_ingest_def c_string_descriptions RTC_ERR_SUCCESS_def
      offer_request_def)

lemma ingest_header:
  "whip_write_header env0 (session_ingest RTC_NEW None) =
     Some (Inr (0, session_ingest RTC_CONNECTED (Some ''http://whip.example/resource/7''),
       [RtcSetLocalDescription 1 ''offer'', Ffurl_alloc ''http://whip.example/in'',
        Ffurl_connect (offer_request ''http://whip.example/in''), Ffurl_read_complete 16384,
        RtcSetRemoteDescription 1 ''answer'' ''answer'', Ffurl_closep ''http://whip.example/in'',
        Av_usleep 1000, Av_usleep 1000, Av_usleep 1000]))"
proof -
  have t: "av_gettime_relative env0
      + connection_timeout (session_ingest RTC_NEW (Some ''http://whip.example/resource/7''))
      = 10005000"
    by (simp add: env0_fields session_ingest_def)
  show ?thesis
    unfolding whip_write_header_def
    by (simp add: ingest_create t wait_env0 numeral_3_eq_3) (simp add: session_ingest_def)
qed

lemma ingest_trailer:
  "whip_write_trailer env0
       (session_ingest RTC_CONNECTED (Some ''http://whip.example/resource/7'')) =
     (0, session_ingest RTC_CONNECTED None,
      [Ffurl_alloc ''http://whip.example/resource/7'', Ffurl_connect delete_request,
       Ffurl_closep ''http://whip.example/resource/7'', Av_freep_resource_location])"
  by (simp add: whip_write_trailer_def ff_webrtc_close_resource_def env0_fields
      session_ingest_def delete_request_def)

lemma ingest_deinit:
  "whip_deinit (session_ingest RTC_CONNECTED None) =
     Inr ((session_ingest RTC_CONNECTED None)\<lparr>tracks := None, peer_connection := 0\<rparr>,
          [Av_freep_tracks, RtcDeletePeerConnection 1])"
  by (simp add: whip_deinit_def ff_webrtc_deinit_def session_ingest_def)

text \<open>The egress close of the sample session, and the egress open with an engine that
  refuses the callback, run.\<close>

lemma egress_close:
  "whep_read_close env0 (session2 RTC_CONNECTED) =
     Inr (0, session2_torn_down RTC_CONNECTED,
          [Ffurl_alloc ''http://whip.example/resource/7'', Ffurl_connect delete_request,
           Ffurl_closep ''http://whip.example/resource/7'', Av_freep_resource_location,
           Avformat_free_context 0 100, Av_freep_rtp_url_context 0, RtcDeleteTrack 0 1,
           Avformat_free_context 1 101, Av_freep_rtp_url_context 1, RtcDeleteTrack 1 2,
           Av_freep_tracks, RtcDeletePeerConnection 1])"
  using ff_webrtc_deinit_session2 [where s = RTC_CONNECTED and loc = None]
  by (simp add: whep_read_close_def close_resource_env0)

lemma callback_fails_open:
  "whep_read_header env_callback_fails avctx_whep session_fresh =
     Some (Inr (AVERROR_EXTERNAL, session_fresh, [],
       [RtcCreatePeerConnection, RtcSetUserPointer 1, RtcSetStateChangeCallback 1,
        RtcDeletePeerConnection 1, RtcDeletePeerConnection 1]))"
proof -
  have "whep_add_tracks env_callback_fails avctx_whep session_fresh =
      Goto_fail AVERROR_EXTERNAL (session_fresh\<lparr>peer_connection := 1\<rparr>, [],
        [RtcCreatePeerConnection, RtcSetUserPointer 1, RtcSetStateChangeCallback 1,
         RtcDeletePeerConnection 1])"
    unfolding whep_add_tracks_def ff_webrtc_init_connection_def Let_def
    by (simp add: env_callback_fails_def env0_fields AVERROR_EXTERNAL_neg)
  moreover have "ff_webrtc_deinit (session_fresh\<lparr>peer_connection := 1\<rparr>) =
      Inr (session_fresh, [RtcDeletePeerConnection 1])"
    by (simp add: ff_webrtc_deinit_def session_fresh_def)
  ultimately show ?thesis
    by (simp add: whep_read_header_def)
qed

text \<open>
  C7. On every teardown path the resources are to be released per track as RTP context
  (the codec session), URL context (the transport binding), engine track (the transport
  handle), then the peer connection, and on an explicit close after the remote deletion.
  The egress close does so: for the two-track session its trace is the HTTP DELETE, then
  for track 0 and for track 1 the three releases in that order, then the track array and
  the peer connection. The ingest role does not. \<open>whip_init\<close> on one H264 and one Opus
  stream returns 0 and leaves both tracks with an RTP context, a URL context and an engine
  track, but never assigns \<open>nb_tracks\<close>; \<open>whip_write_header\<close> connects; \<open>whip_write_trailer\<close>
  deletes the resource; and \<open>whip_deinit\<close> then runs the track loop of \<open>ff_webrtc_deinit\<close>
  zero times: it frees the track array and deletes the peer connection, and none of the
  six per-track resources is released. On the set-up failure path where the engine
  refuses the state-change callback, \<open>ff_webrtc_init_connection\<close> deletes the peer
  connection and leaves its handle in the context, and the teardown at the \<open>fail\<close> label of
  \<open>whep_read_header\<close> deletes it a second time.
\<close>

theorem teardown_skips_ingest_tracks:
  "whep_read_close env0 (session2 RTC_CONNECTED) =
     Inr (0, session2_torn_down RTC_CONNECTED,
          [Ffurl_alloc ''http://whip.example/resource/7'', Ffurl_connect delete_request,
           Ffurl_closep ''http://whip.example/resource/7'', Av_freep_resource_location,
           Avformat_free_context 0 100, Av_freep_rtp_url_context 0, RtcDeleteTrack 0 1,
           Avformat_free_context 1 101, Av_freep_rtp_url_context 1, RtcDeleteTrack 1 2,
           Av_freep_tracks, RtcDeletePeerConnection 1]) \<and>
   (\<exists>ev. whip_init env0 (avctx_whip [video_h264, audio_opus 48000 AV_CHANNEL_LAYOUT_STEREO])
            session_fresh = Inr (0, session_ingest RTC_NEW None, ev)) \<and>
   (\<exists>ev. whip_write_header env0 (session_ingest RTC_NEW None) =
      Some (Inr (0, session_ingest RTC_CONNECTED (Some ''http://whip.example/resource/7''), ev))) \<and>
   whip_write_trailer env0
       (session_ingest RTC_CONNECTED (Some ''http://whip.example/resource/7'')) =
     (0, session_ingest RTC_CONNECTED None,
      [Ffurl_alloc ''http://whip.example/resource/7'', Ffurl_connect delete_request,
       Ffurl_closep ''http://whip.example/resource/7'', Av_freep_resource_location]) \<and>
   whip_deinit (session_ingest RTC_CONNECTED None) =
     Inr ((session_ingest RTC_CONNECTED None)\<lparr>tracks := None, peer_connection := 0\<rparr>,
          [Av_freep_tracks, RtcDeletePeerConnection 1]) \<and>
   whep_read_header env_callback_fails avctx_whep session_fresh =
     Some (Inr (AVERROR_EXTERNAL, session_fresh, [],
       [RtcCreatePeerConnection, RtcSetUserPointer 1, RtcSetStateChangeCallback 1,
        RtcDeletePeerConnection 1, RtcDeletePeerConnection 1]))"
  using egress_close ingest_init ingest_header ingest_trailer ingest_deinit callback_fails_open
  by simp

end
